theory Spec2Isabelle
  imports Main "HOL-Library.Sublist"
begin

section \<open>JavaScript values\<close>

text \<open>
  The server handles untyped JSON data: the argument map of a tool call, the payload
  parsed from a response, the body sent with a request. One datatype covers them.
  \<open>JUndefined\<close> is the value of a missing property (\<^verbatim>\<open>args.memberId\<close> when the
  caller left it out). An object is the sequence of its own enumerable properties in
  the order \<^verbatim>\<open>Object.entries\<close> yields them; its keys are distinct.

  Strings are byte sequences (the UTF-8 form of the text).
\<close>

text \<open>
  A number is a double. This program never calculates with a number: it prints it
  (\<^verbatim>\<open>String\<close>, template literals, \<^verbatim>\<open>JSON.stringify\<close>) and tests whether it is truthy.
  A number is therefore represented by the text \<^verbatim>\<open>Number.prototype.toString\<close> prints
  for it: \<^verbatim>\<open>10\<close>, \<^verbatim>\<open>-3\<close>, \<^verbatim>\<open>1.5\<close>, \<^verbatim>\<open>9223372036854776000\<close> (the double nearest to
  \<open>2^63\<close>), \<^verbatim>\<open>1e+21\<close>, \<^verbatim>\<open>Infinity\<close>, \<^verbatim>\<open>NaN\<close>. Different doubles print differently, but
  for \<^verbatim>\<open>0\<close> and \<^verbatim>\<open>-0\<close>, which both print as \<^verbatim>\<open>0\<close> and are both falsy. The theorems
  hold for every text, so for the text of every double.
\<close>

datatype number = Number string

primrec Number_toString :: "number \<Rightarrow> string" where
  "Number_toString (Number t) = t"

text \<open>\<^verbatim>\<open>JSON.stringify\<close> prints a number that is not finite as \<^verbatim>\<open>null\<close>.\<close>

definition Number_isFinite :: "number \<Rightarrow> bool" where
  "Number_isFinite x \<longleftrightarrow>
     Number_toString x \<noteq> ''NaN'' \<and> Number_toString x \<noteq> ''Infinity''
     \<and> Number_toString x \<noteq> ''-Infinity''"

datatype jsval =
    JUndefined
  | JNull
  | JBool bool
  | JNum number
  | JStr string
  | JArr "jsval list"
  | JObj "(string \<times> jsval) list"

type_synonym jsobject = "(string \<times> jsval) list"

text \<open>
  What a \<^verbatim>\<open>throw\<close> carries: an \<^verbatim>\<open>Error\<close> object (or an instance of a subclass such
  as \<^verbatim>\<open>TypeError\<close> or \<^verbatim>\<open>SyntaxError\<close>) with its message, or any other value.
\<close>

datatype thrown = Error string | Thrown jsval

text \<open>Property read \<^verbatim>\<open>obj.key\<close>: the value, or \<^verbatim>\<open>undefined\<close> when the key is absent.\<close>

definition js_get :: "jsobject \<Rightarrow> string \<Rightarrow> jsval" where
  "js_get obj key = (case map_of obj key of None \<Rightarrow> JUndefined | Some v \<Rightarrow> v)"

text \<open>Rest destructuring \<^verbatim>\<open>const { key, ...data } = obj\<close>: every property but \<open>key\<close>.\<close>

definition js_rest :: "jsobject \<Rightarrow> string \<Rightarrow> jsobject" where
  "js_rest obj key = filter (\<lambda>(k, v). k \<noteq> key) obj"

text \<open>Truthiness, as tested by \<^verbatim>\<open>if (body && ...)\<close>.\<close>

fun truthy :: "jsval \<Rightarrow> bool" where
  "truthy JUndefined = False"
| "truthy JNull = False"
| "truthy (JBool b) = b"
| "truthy (JNum n) = (Number_toString n \<noteq> ''0'' \<and> Number_toString n \<noteq> ''NaN'')"
| "truthy (JStr s) = (s \<noteq> [])"
| "truthy (JArr xs) = True"
| "truthy (JObj kvs) = True"

subsection \<open>Conversion to text\<close>

text \<open>
  The decimal numeral of a natural number: how the status of a response, an integer from
  100 to 599, prints in a template literal.
\<close>

definition decimal_digit :: "nat \<Rightarrow> char" where
  "decimal_digit d = ''0123456789'' ! d"

function string_of_nat :: "nat \<Rightarrow> string" where
  "string_of_nat n =
     (if n < 10 then [decimal_digit n]
      else string_of_nat (n div 10) @ [decimal_digit (n mod 10)])"
  by pat_completeness auto
termination
  by (relation "measure (\<lambda>n. n)") auto

text \<open>\<^verbatim>\<open>Array.prototype.join\<close> on texts.\<close>

fun joinWith :: "string \<Rightarrow> string list \<Rightarrow> string" where
  "joinWith sep [] = []"
| "joinWith sep [x] = x"
| "joinWith sep (x # y # ys) = x @ sep @ joinWith sep (y # ys)"

text \<open>
  \<^verbatim>\<open>String(value)\<close>, which is also what a template literal \<^verbatim>\<open>`${value}`\<close> prints.
  An array prints its elements joined by commas, \<^verbatim>\<open>null\<close> and \<^verbatim>\<open>undefined\<close> elements
  as the empty text; a plain object prints as \<^verbatim>\<open>[object Object]\<close> (objects that come
  from JSON and do not redefine \<^verbatim>\<open>toString\<close>).
\<close>

fun js_String :: "jsval \<Rightarrow> string" where
  "js_String JUndefined = ''undefined''"
| "js_String JNull = ''null''"
| "js_String (JBool b) = (if b then ''true'' else ''false'')"
| "js_String (JNum n) = Number_toString n"
| "js_String (JStr s) = s"
| "js_String (JArr xs) =
     joinWith '',''
       (map (\<lambda>v. if v = JUndefined \<or> v = JNull then [] else js_String v) xs)"
| "js_String (JObj kvs) = ''[object Object]''"

subsection \<open>JSON.stringify\<close>

definition hex_lower :: "nat \<Rightarrow> char" where
  "hex_lower d = ''0123456789abcdef'' ! d"

definition hex_upper :: "nat \<Rightarrow> char" where
  "hex_upper d = ''0123456789ABCDEF'' ! d"

text \<open>
  \<^verbatim>\<open>QuoteJSONString\<close>: the double quote and the backslash are escaped, control
  characters print as their short escape or as \<^verbatim>\<open>\u00XX\<close>, every other byte is kept.
\<close>

definition JSON_escape :: "char \<Rightarrow> string" where
  "JSON_escape c =
     (if c = CHR 0x22 then [CHR 0x5C, CHR 0x22]
      else if c = CHR 0x5C then [CHR 0x5C, CHR 0x5C]
      else if c = CHR 0x08 then [CHR 0x5C, CHR ''b'']
      else if c = CHR 0x09 then [CHR 0x5C, CHR ''t'']
      else if c = CHR 0x0A then [CHR 0x5C, CHR ''n'']
      else if c = CHR 0x0C then [CHR 0x5C, CHR ''f'']
      else if c = CHR 0x0D then [CHR 0x5C, CHR ''r'']
      else if (of_char c :: nat) < 32
        then [CHR 0x5C, CHR ''u'', CHR ''0'', CHR ''0'',
              hex_lower (of_char c div 16), hex_lower (of_char c mod 16)]
      else [c])"

definition QuoteJSONString :: "string \<Rightarrow> string" where
  "QuoteJSONString s = CHR 0x22 # concat (map JSON_escape s) @ [CHR 0x22]"

text \<open>
  \<^verbatim>\<open>SerializeJSONProperty\<close> with its \<open>gap\<close> and current \<open>indent\<close>. \<open>None\<close> is the
  result \<^verbatim>\<open>undefined\<close>: an undefined property of an object is left out, an undefined
  element of an array prints as \<^verbatim>\<open>null\<close>.
\<close>

fun SerializeJSON :: "string \<Rightarrow> string \<Rightarrow> jsval \<Rightarrow> string option" where
  "SerializeJSON gap indent JUndefined = None"
| "SerializeJSON gap indent JNull = Some ''null''"
| "SerializeJSON gap indent (JBool b) = Some (if b then ''true'' else ''false'')"
| "SerializeJSON gap indent (JNum n) =
     Some (if Number_isFinite n then Number_toString n else ''null'')"
| "SerializeJSON gap indent (JStr s) = Some (QuoteJSONString s)"
| "SerializeJSON gap indent (JArr xs) =
     (let stepback = indent;
          indent = indent @ gap;
          partial = map (\<lambda>v. case SerializeJSON gap indent v of
                                 None \<Rightarrow> ''null'' | Some strP \<Rightarrow> strP) xs
      in Some (if partial = [] then ''[]''
               else if gap = [] then ''['' @ joinWith '','' partial @ '']''
               else ''['' @ [CHR 0x0A] @ indent
                    @ joinWith ('','' @ [CHR 0x0A] @ indent) partial
                    @ [CHR 0x0A] @ stepback @ '']''))"
| "SerializeJSON gap indent (JObj kvs) =
     (let stepback = indent;
          indent = indent @ gap;
          partial = concat (map (\<lambda>(P, v). case SerializeJSON gap indent v of
                                 None \<Rightarrow> []
                               | Some strP \<Rightarrow>
                                   [QuoteJSONString P @ '':''
                                    @ (if gap \<noteq> [] then '' '' else []) @ strP]) kvs)
      in Some (if partial = [] then ''{}''
               else if gap = [] then ''{'' @ joinWith '','' partial @ ''}''
               else ''{'' @ [CHR 0x0A] @ indent
                    @ joinWith ('','' @ [CHR 0x0A] @ indent) partial
                    @ [CHR 0x0A] @ stepback @ ''}''))"

text \<open>
  \<^verbatim>\<open>JSON.stringify(value, null, space)\<close>; \<^verbatim>\<open>JSON.stringify(value)\<close> is \<open>space = 0\<close>.
\<close>

definition JSON_stringify :: "jsval \<Rightarrow> nat \<Rightarrow> string option" where
  "JSON_stringify v space = SerializeJSON (replicate (min 10 space) CHR '' '') [] v"

section \<open>The Transport Client\<close>

subsection \<open>Platform: query strings and HTTP\<close>

text \<open>
  \<^verbatim>\<open>URLSearchParams.prototype.toString\<close> is the \<^verbatim>\<open>application/x-www-form-urlencoded\<close>
  serializer: letters, digits and \<^verbatim>\<open>* - . _\<close> are kept, a space becomes \<^verbatim>\<open>+\<close>, every
  other byte becomes \<^verbatim>\<open>%XX\<close>; pairs print as \<^verbatim>\<open>name=value\<close> joined by \<^verbatim>\<open>&\<close>.
\<close>

definition form_safe :: "char \<Rightarrow> bool" where
  "form_safe c \<longleftrightarrow>
     c \<in> set ''ABCDEFGHIJKLMNOPQRSTUVWXYZabcdefghijklmnopqrstuvwxyz0123456789*-._''"

definition form_encode_byte :: "char \<Rightarrow> string" where
  "form_encode_byte c =
     (if c = CHR '' '' then ''+''
      else if form_safe c then [c]
      else [CHR ''%'', hex_upper (of_char c div 16), hex_upper (of_char c mod 16)])"

definition form_encode :: "string \<Rightarrow> string" where
  "form_encode s = concat (map form_encode_byte s)"

definition URLSearchParams_toString :: "(string \<times> string) list \<Rightarrow> string" where
  "URLSearchParams_toString params =
     joinWith ''&'' (map (\<lambda>(k, v). form_encode k @ ''='' @ form_encode v) params)"

text \<open>
  How the receiver reads a query string, the \<^verbatim>\<open>application/x-www-form-urlencoded\<close>
  parser (\<^verbatim>\<open>new URLSearchParams(text)\<close>): the text is split at \<^verbatim>\<open>&\<close>, each piece that is
  not empty at its first \<^verbatim>\<open>=\<close>; in a name and in a value \<^verbatim>\<open>+\<close> reads as a space and
  \<^verbatim>\<open>%XX\<close> as the byte with that code.
\<close>

fun split_on :: "char \<Rightarrow> string \<Rightarrow> string list" where
  "split_on sep [] = [[]]"
| "split_on sep (c # cs) =
     (let rest = split_on sep cs
      in if c = sep then [] # rest else (c # hd rest) # tl rest)"

definition hex_value :: "char \<Rightarrow> nat option" where
  "hex_value c =
     (if c \<in> set ''0123456789'' then Some (of_char c - 48)
      else if c \<in> set ''ABCDEF'' then Some (of_char c - 55)
      else if c \<in> set ''abcdef'' then Some (of_char c - 87)
      else None)"

fun percent_decode :: "string \<Rightarrow> string" where
  "percent_decode (c # h # l # cs) =
     (if c = CHR ''%'' \<and> hex_value h \<noteq> None \<and> hex_value l \<noteq> None
      then char_of (16 * the (hex_value h) + the (hex_value l)) # percent_decode cs
      else c # percent_decode (h # l # cs))"
| "percent_decode cs = cs"

definition form_decode :: "string \<Rightarrow> string" where
  "form_decode s = percent_decode (map (\<lambda>c. if c = CHR ''+'' then CHR '' '' else c) s)"

definition URLSearchParams_parse :: "string \<Rightarrow> (string \<times> string) list" where
  "URLSearchParams_parse input =
     map (\<lambda>piece. (form_decode (takeWhile (\<lambda>c. c \<noteq> CHR ''='') piece),
                    form_decode (drop 1 (dropWhile (\<lambda>c. c \<noteq> CHR ''='') piece))))
       (filter (\<lambda>piece. piece \<noteq> []) (split_on CHR ''&'' input))"

text \<open>
  An HTTP request as handed to \<^verbatim>\<open>fetch(url, options)\<close>; \<open>req_body = None\<close> is a request
  without a body. Of the response the client reads the status and the body text;
  \<^verbatim>\<open>response.ok\<close> is true for the statuses 200 to 299.
\<close>

record http_request =
  req_method :: string
  req_url :: string
  req_headers :: "(string \<times> string) list"
  req_body :: "string option"

record http_response =
  status :: nat
  response_text :: string

definition ok :: "http_response \<Rightarrow> bool" where
  "ok response \<longleftrightarrow> 200 \<le> status response \<and> status response \<le> 299"

text \<open>
  The environment of a call: the API key the client was constructed with, the remote
  side as \<^verbatim>\<open>fetch\<close> sees it (a response, or a rejection such as a network failure),
  and \<^verbatim>\<open>JSON.parse\<close> (a parsed value, or the \<^verbatim>\<open>SyntaxError\<close> it throws). The theorems
  hold for every remote side and every parser.
\<close>

record env =
  apiKey :: string
  fetch :: "http_request \<Rightarrow> thrown + http_response"
  JSON_parse :: "string \<Rightarrow> thrown + jsval"

text \<open>
  What an asynchronous operation amounts to: the requests it handed to \<^verbatim>\<open>fetch\<close>, in
  order, and the value its promise resolves to (\<open>Inr\<close>) or is rejected with (\<open>Inl\<close>).
\<close>

type_synonym outcome = "http_request list \<times> (thrown + jsval)"

subsection \<open>LearningSuiteClient.request\<close>

definition BASE_URL :: string where
  "BASE_URL = ''https://api.learningsuite.io/api/v1''"

text \<open>Lines 22 to 35 of \<^verbatim>\<open>api-client.ts\<close>: the URL with its query string.\<close>

definition request_url :: "string \<Rightarrow> jsobject option \<Rightarrow> string" where
  "request_url path queryParams =
     (let url = BASE_URL @ path
      in case queryParams of
           None \<Rightarrow> url
         | Some entries \<Rightarrow>
             (let params = map (\<lambda>(key, value). (key, js_String value))
                             (filter (\<lambda>(key, value). value \<noteq> JUndefined) entries);
                  queryString = URLSearchParams_toString params
              in if queryString \<noteq> [] then url @ ''?'' @ queryString else url))"

text \<open>Lines 37 to 49: headers, method and the body, if one is attached.\<close>

definition request_options ::
  "env \<Rightarrow> string \<Rightarrow> string \<Rightarrow> jsval \<Rightarrow> jsobject option \<Rightarrow> http_request" where
  "request_options E method path body queryParams =
     (let headers = [(''Content-Type'', ''application/json''), (''X-API-Key'', apiKey E)]
      in \<lparr>req_method = method,
          req_url = request_url path queryParams,
          req_headers = headers,
          req_body = (if truthy body
                         \<and> (method = ''POST'' \<or> method = ''PUT'' \<or> method = ''DELETE'')
                      then JSON_stringify body 0 else None)\<rparr>)"

text \<open>Lines 51 to 63: the round trip and the reading of the response.\<close>

definition request ::
  "env \<Rightarrow> string \<Rightarrow> string \<Rightarrow> jsval \<Rightarrow> jsobject option \<Rightarrow> outcome" where
  "request E method path body queryParams =
     (let options = request_options E method path body queryParams
      in case fetch E options of
           Inl error \<Rightarrow> ([options], Inl error)
         | Inr response \<Rightarrow>
             if \<not> ok response
             then ([options],
                   Inl (Error (''API Error '' @ string_of_nat (status response) @ '': ''
                               @ response_text response)))
             else (let text = response_text response
                   in if text = [] then ([options], Inr (JObj []))
                      else ([options], JSON_parse E text)))"

subsection \<open>The operations of the client\<close>

text \<open>
  One definition per method of \<^verbatim>\<open>LearningSuiteClient\<close>, in the order of the class. An
  optional \<^verbatim>\<open>params\<close> argument is \<open>None\<close> when the caller leaves it out; an object
  literal \<^verbatim>\<open>{ courseIds }\<close> is the object with that one property.
\<close>

definition checkAuth :: "env \<Rightarrow> outcome" where
  "checkAuth E =
     request E ''GET'' ''/auth'' JUndefined None"

definition getMembers :: "env \<Rightarrow> jsobject option \<Rightarrow> outcome" where
  "getMembers E params =
     request E ''GET'' ''/members'' JUndefined params"

definition createMember :: "env \<Rightarrow> jsval \<Rightarrow> outcome" where
  "createMember E data =
     request E ''POST'' ''/members'' data None"

definition getMemberByEmail ::
  "env \<Rightarrow> jsval \<Rightarrow> jsval \<Rightarrow> outcome" where
  "getMemberByEmail E email includeGroups =
     request E ''GET'' ''/members/by-email''
       JUndefined (Some [(''email'', email), (''includeGroups'', includeGroups)])"

definition getMember ::
  "env \<Rightarrow> jsval \<Rightarrow> jsval \<Rightarrow> outcome" where
  "getMember E memberId includeGroups =
     request E ''GET'' (''/members/'' @ js_String memberId)
       JUndefined (Some [(''includeGroups'', includeGroups)])"

definition updateMember ::
  "env \<Rightarrow> jsval \<Rightarrow> jsval \<Rightarrow> outcome" where
  "updateMember E memberId data =
     request E ''PUT'' (''/members/'' @ js_String memberId) data None"

definition deleteMember :: "env \<Rightarrow> jsval \<Rightarrow> outcome" where
  "deleteMember E memberId =
     request E ''DELETE'' (''/members/'' @ js_String memberId) JUndefined None"

definition getMemberCourses ::
  "env \<Rightarrow> jsval \<Rightarrow> jsobject option \<Rightarrow> outcome" where
  "getMemberCourses E memberId params =
     request E ''GET'' (''/members/'' @ js_String memberId @ ''/courses'') JUndefined params"

definition addMemberToCourses ::
  "env \<Rightarrow> jsval \<Rightarrow> jsval \<Rightarrow> outcome" where
  "addMemberToCourses E memberId data =
     request E ''PUT'' (''/members/'' @ js_String memberId @ ''/courses'') data None"

definition removeMemberFromCourses ::
  "env \<Rightarrow> jsval \<Rightarrow> jsval \<Rightarrow> outcome" where
  "removeMemberFromCourses E memberId courseIds =
     request E ''DELETE'' (''/members/'' @ js_String memberId @ ''/courses'')
       (JObj [(''courseIds'', courseIds)]) None"

definition getMemberCourseInfo ::
  "env \<Rightarrow> jsval \<Rightarrow> jsval \<Rightarrow> jsval \<Rightarrow> outcome" where
  "getMemberCourseInfo E memberId courseId dateForAccessCheck =
     request E ''GET'' (''/members/'' @ js_String memberId @ ''/course-info/'' @ js_String courseId)
       JUndefined (Some [(''dateForAccessCheck'', dateForAccessCheck)])"

definition getMemberBundles :: "env \<Rightarrow> jsval \<Rightarrow> outcome" where
  "getMemberBundles E memberId =
     request E ''GET'' (''/members/'' @ js_String memberId @ ''/bundles'') JUndefined None"

definition addMemberToBundles ::
  "env \<Rightarrow> jsval \<Rightarrow> jsval \<Rightarrow> outcome" where
  "addMemberToBundles E memberId data =
     request E ''PUT'' (''/members/'' @ js_String memberId @ ''/bundles'') data None"

definition removeMemberFromBundles ::
  "env \<Rightarrow> jsval \<Rightarrow> jsval \<Rightarrow> outcome" where
  "removeMemberFromBundles E memberId bundleIds =
     request E ''DELETE'' (''/members/'' @ js_String memberId @ ''/bundles'')
       (JObj [(''bundleIds'', bundleIds)]) None"

definition getTeamMembers :: "env \<Rightarrow> jsobject option \<Rightarrow> outcome" where
  "getTeamMembers E params =
     request E ''GET'' ''/team-members'' JUndefined params"

definition getTeamMemberByEmail :: "env \<Rightarrow> jsval \<Rightarrow> outcome" where
  "getTeamMemberByEmail E email =
     request E ''GET'' ''/team-members/by-email'' JUndefined (Some [(''email'', email)])"

definition getTeamMember :: "env \<Rightarrow> jsval \<Rightarrow> outcome" where
  "getTeamMember E userId =
     request E ''GET'' (''/team-members/'' @ js_String userId) JUndefined None"

definition getGroups :: "env \<Rightarrow> jsobject option \<Rightarrow> outcome" where
  "getGroups E params =
     request E ''GET'' ''/groups'' JUndefined params"

definition createGroup :: "env \<Rightarrow> jsval \<Rightarrow> outcome" where
  "createGroup E data =
     request E ''POST'' ''/groups'' data None"

definition findGroupsByName :: "env \<Rightarrow> jsval \<Rightarrow> outcome" where
  "findGroupsByName E name =
     request E ''GET'' ''/groups/find-by-name'' JUndefined (Some [(''name'', name)])"

definition deleteGroup :: "env \<Rightarrow> jsval \<Rightarrow> outcome" where
  "deleteGroup E groupId =
     request E ''DELETE'' (''/group/'' @ js_String groupId) JUndefined None"

definition getGroupCourses :: "env \<Rightarrow> jsval \<Rightarrow> outcome" where
  "getGroupCourses E groupId =
     request E ''GET'' (''/group/'' @ js_String groupId @ ''/courses'') JUndefined None"

definition addCoursesToGroup ::
  "env \<Rightarrow> jsval \<Rightarrow> jsval \<Rightarrow> outcome" where
  "addCoursesToGroup E groupId courseIds =
     request E ''PUT'' (''/group/'' @ js_String groupId @ ''/courses'')
       (JObj [(''courseIds'', courseIds)]) None"

definition removeCoursesFromGroup ::
  "env \<Rightarrow> jsval \<Rightarrow> jsval \<Rightarrow> outcome" where
  "removeCoursesFromGroup E groupId courseIds =
     request E ''DELETE'' (''/group/'' @ js_String groupId @ ''/courses'')
       (JObj [(''courseIds'', courseIds)]) None"

definition addBundlesToGroup ::
  "env \<Rightarrow> jsval \<Rightarrow> jsval \<Rightarrow> outcome" where
  "addBundlesToGroup E groupId bundleIds =
     request E ''PUT'' (''/group/'' @ js_String groupId @ ''/bundles'')
       (JObj [(''bundleIds'', bundleIds)]) None"

definition addMembersToGroups :: "env \<Rightarrow> jsval \<Rightarrow> outcome" where
  "addMembersToGroups E data =
     request E ''PUT'' ''/add-members-to-groups'' data None"

definition addMembersToGroupsSummary :: "env \<Rightarrow> jsval \<Rightarrow> outcome" where
  "addMembersToGroupsSummary E data =
     request E ''PUT'' ''/add-members-to-groups-summary'' data None"

definition removeMembersFromGroups :: "env \<Rightarrow> jsval \<Rightarrow> outcome" where
  "removeMembersFromGroups E data =
     request E ''DELETE'' ''/remove-members-from-groups'' data None"

definition getPublishedCourses :: "env \<Rightarrow> outcome" where
  "getPublishedCourses E =
     request E ''GET'' ''/courses/published'' JUndefined None"

definition getCourseModules :: "env \<Rightarrow> jsval \<Rightarrow> outcome" where
  "getCourseModules E courseId =
     request E ''GET'' (''/courses/'' @ js_String courseId @ ''/modules'') JUndefined None"

definition getCourseModulesForMember ::
  "env \<Rightarrow> jsval \<Rightarrow> jsval \<Rightarrow> outcome" where
  "getCourseModulesForMember E courseId memberId =
     request E ''GET'' (''/courses/'' @ js_String courseId @ ''/modules/'' @ js_String memberId)
       JUndefined None"

definition getCourseMembers ::
  "env \<Rightarrow> jsval \<Rightarrow> jsobject option \<Rightarrow> outcome" where
  "getCourseMembers E courseId params =
     request E ''GET'' (''/courses/'' @ js_String courseId @ ''/members'') JUndefined params"

definition getCourseAccessRequests ::
  "env \<Rightarrow> jsval \<Rightarrow> jsobject option \<Rightarrow> outcome" where
  "getCourseAccessRequests E courseId params =
     request E ''GET'' (''/courses/'' @ js_String courseId @ ''/access-requests'')
       JUndefined params"

definition getCourseSubmissions ::
  "env \<Rightarrow> jsval \<Rightarrow> jsobject option \<Rightarrow> outcome" where
  "getCourseSubmissions E courseId params =
     request E ''GET'' (''/courses/'' @ js_String courseId @ ''/submissions'')
       JUndefined params"

definition createLesson ::
  "env \<Rightarrow> jsval \<Rightarrow> jsval \<Rightarrow> jsval \<Rightarrow> outcome" where
  "createLesson E courseId sectionId data =
     request E ''POST'' (''/courses/'' @ js_String courseId @ ''/create-lesson/'' @ js_String sectionId)
       data None"

definition getModuleSections :: "env \<Rightarrow> jsval \<Rightarrow> outcome" where
  "getModuleSections E moduleId =
     request E ''GET'' (''/modules/'' @ js_String moduleId @ ''/sections'') JUndefined None"

definition getModuleLessons :: "env \<Rightarrow> jsval \<Rightarrow> outcome" where
  "getModuleLessons E moduleId =
     request E ''GET'' (''/modules/'' @ js_String moduleId @ ''/lessons'') JUndefined None"

definition createModuleUnlockOverride :: "env \<Rightarrow> jsval \<Rightarrow> outcome" where
  "createModuleUnlockOverride E data =
     request E ''POST'' ''/create-module-unlock-override'' data None"

definition getBundles :: "env \<Rightarrow> outcome" where
  "getBundles E =
     request E ''GET'' ''/bundles'' JUndefined None"

definition getBundleMembers ::
  "env \<Rightarrow> jsval \<Rightarrow> jsobject option \<Rightarrow> outcome" where
  "getBundleMembers E bundleId params =
     request E ''GET'' (''/bundle/'' @ js_String bundleId @ ''/members'') JUndefined params"

definition getHubs :: "env \<Rightarrow> outcome" where
  "getHubs E =
     request E ''GET'' ''/hubs'' JUndefined None"

definition createHub :: "env \<Rightarrow> jsval \<Rightarrow> outcome" where
  "createHub E data =
     request E ''POST'' ''/hub'' data None"

definition getHubTemplates :: "env \<Rightarrow> outcome" where
  "getHubTemplates E =
     request E ''GET'' ''/hub-templates'' JUndefined None"

definition getHubTemplateVariables :: "env \<Rightarrow> jsval \<Rightarrow> outcome" where
  "getHubTemplateVariables E hubTemplateId =
     request E ''GET'' (''/hub-template/'' @ js_String hubTemplateId @ ''/variables'')
       JUndefined None"

definition addHubAccesses ::
  "env \<Rightarrow> jsval \<Rightarrow> jsval \<Rightarrow> outcome" where
  "addHubAccesses E hubId data =
     request E ''PUT'' (''/hub/'' @ js_String hubId @ ''/access'') data None"

definition removeHubAccesses ::
  "env \<Rightarrow> jsval \<Rightarrow> jsval \<Rightarrow> outcome" where
  "removeHubAccesses E hubId data =
     request E ''DELETE'' (''/hub/'' @ js_String hubId @ ''/access'') data None"

definition getCommunityAreas :: "env \<Rightarrow> outcome" where
  "getCommunityAreas E =
     request E ''GET'' ''/community/areas'' JUndefined None"

definition getCommunityForums :: "env \<Rightarrow> jsobject option \<Rightarrow> outcome" where
  "getCommunityForums E params =
     request E ''GET'' ''/community/forums'' JUndefined params"

definition getCommunityPosts :: "env \<Rightarrow> jsobject option \<Rightarrow> outcome" where
  "getCommunityPosts E params =
     request E ''GET'' ''/community/posts'' JUndefined params"

definition commentOnPost ::
  "env \<Rightarrow> jsval \<Rightarrow> jsval \<Rightarrow> outcome" where
  "commentOnPost E postId data =
     request E ''POST'' (''/community/posts/'' @ js_String postId @ ''/comments'') data None"

definition getCommunityBadges :: "env \<Rightarrow> outcome" where
  "getCommunityBadges E =
     request E ''GET'' ''/community/badges'' JUndefined None"

definition assignBadgesToUser :: "env \<Rightarrow> jsval \<Rightarrow> outcome" where
  "assignBadgesToUser E data =
     request E ''PUT'' ''/community/badges/user'' data None"

definition removeBadgesFromUser :: "env \<Rightarrow> jsval \<Rightarrow> outcome" where
  "removeBadgesFromUser E data =
     request E ''DELETE'' ''/community/badges/user'' data None"

definition getPopups :: "env \<Rightarrow> jsobject option \<Rightarrow> outcome" where
  "getPopups E params =
     request E ''GET'' ''/popups'' JUndefined params"

definition getPopup :: "env \<Rightarrow> jsval \<Rightarrow> outcome" where
  "getPopup E popupId =
     request E ''GET'' (''/popups/'' @ js_String popupId) JUndefined None"

definition triggerPopup ::
  "env \<Rightarrow> jsval \<Rightarrow> jsval \<Rightarrow> outcome" where
  "triggerPopup E popupId memberId =
     request E ''POST'' (''/popups/'' @ js_String popupId @ ''/trigger/'' @ js_String memberId)
       JUndefined None"

definition removePopupTrigger ::
  "env \<Rightarrow> jsval \<Rightarrow> jsval \<Rightarrow> outcome" where
  "removePopupTrigger E popupId memberId =
     request E ''DELETE'' (''/popups/'' @ js_String popupId @ ''/trigger/'' @ js_String memberId)
       JUndefined None"

definition sendPushNotifications :: "env \<Rightarrow> jsval \<Rightarrow> outcome" where
  "sendPushNotifications E data =
     request E ''POST'' ''/user/push-notifications/send'' data None"

definition getRoles :: "env \<Rightarrow> outcome" where
  "getRoles E =
     request E ''GET'' ''/user/roles'' JUndefined None"

definition getWebhookSubscriptions :: "env \<Rightarrow> outcome" where
  "getWebhookSubscriptions E =
     request E ''GET'' ''/webhooks/subscription'' JUndefined None"

definition createWebhookSubscription :: "env \<Rightarrow> jsval \<Rightarrow> outcome" where
  "createWebhookSubscription E data =
     request E ''POST'' ''/webhooks/subscription'' data None"

definition getWebhookSubscription :: "env \<Rightarrow> jsval \<Rightarrow> outcome" where
  "getWebhookSubscription E subscriptionId =
     request E ''GET'' (''/webhooks/subscription/'' @ js_String subscriptionId) JUndefined None"

definition updateWebhookSubscription ::
  "env \<Rightarrow> jsval \<Rightarrow> jsval \<Rightarrow> outcome" where
  "updateWebhookSubscription E subscriptionId data =
     request E ''PUT'' (''/webhooks/subscription/'' @ js_String subscriptionId) data None"

definition deleteWebhookSubscription :: "env \<Rightarrow> jsval \<Rightarrow> outcome" where
  "deleteWebhookSubscription E subscriptionId =
     request E ''DELETE'' (''/webhooks/subscription/'' @ js_String subscriptionId)
       JUndefined None"

definition getWebhookSampleData :: "env \<Rightarrow> jsval \<Rightarrow> outcome" where
  "getWebhookSampleData E eventType =
     request E ''GET'' (''/webhooks/sample-data/'' @ js_String eventType) JUndefined None"

section \<open>The Dispatcher\<close>

text \<open>
  \<^verbatim>\<open>handleToolCall\<close>: the \<^verbatim>\<open>switch\<close> over the tool name, case by case in the order
  of the source. \<open>args\<close> is the argument map of the call, an object as the signature
  declares it; \<^verbatim>\<open>args as any\<close> hands the whole map on, as a body or as query parameters.
  The \<^verbatim>\<open>default\<close> branch throws before any request is sent.
\<close>

definition handleToolCall :: "env \<Rightarrow> string \<Rightarrow> jsobject \<Rightarrow> outcome" where
  "handleToolCall E name args =
     (if name = ''learningsuite_check_auth''
        then checkAuth E
      else if name = ''learningsuite_list_members''
        then getMembers E (Some args)
      else if name = ''learningsuite_create_member''
        then createMember E (JObj args)
      else if name = ''learningsuite_get_member''
        then getMember E (js_get args ''memberId'') (js_get args ''includeGroups'')
      else if name = ''learningsuite_get_member_by_email''
        then getMemberByEmail E (js_get args ''email'') (js_get args ''includeGroups'')
      else if name = ''learningsuite_update_member''
        then (let memberId = js_get args ''memberId''; data = js_rest args ''memberId''
              in updateMember E memberId (JObj data))
      else if name = ''learningsuite_delete_member''
        then deleteMember E (js_get args ''memberId'')
      else if name = ''learningsuite_get_member_courses''
        then getMemberCourses E (js_get args ''memberId'') (Some args)
      else if name = ''learningsuite_add_member_to_courses''
        then addMemberToCourses E (js_get args ''memberId'') (JObj args)
      else if name = ''learningsuite_remove_member_from_courses''
        then removeMemberFromCourses E (js_get args ''memberId'') (js_get args ''courseIds'')
      else if name = ''learningsuite_get_member_course_info''
        then getMemberCourseInfo E (js_get args ''memberId'')
               (js_get args ''courseId'') (js_get args ''dateForAccessCheck'')
      else if name = ''learningsuite_get_member_bundles''
        then getMemberBundles E (js_get args ''memberId'')
      else if name = ''learningsuite_add_member_to_bundles''
        then addMemberToBundles E (js_get args ''memberId'') (JObj args)
      else if name = ''learningsuite_remove_member_from_bundles''
        then removeMemberFromBundles E (js_get args ''memberId'') (js_get args ''bundleIds'')
      else if name = ''learningsuite_list_team_members''
        then getTeamMembers E (Some args)
      else if name = ''learningsuite_get_team_member''
        then getTeamMember E (js_get args ''userId'')
      else if name = ''learningsuite_get_team_member_by_email''
        then getTeamMemberByEmail E (js_get args ''email'')
      else if name = ''learningsuite_list_groups''
        then getGroups E (Some args)
      else if name = ''learningsuite_create_group''
        then createGroup E (JObj args)
      else if name = ''learningsuite_find_groups_by_name''
        then findGroupsByName E (js_get args ''name'')
      else if name = ''learningsuite_delete_group''
        then deleteGroup E (js_get args ''groupId'')
      else if name = ''learningsuite_get_group_courses''
        then getGroupCourses E (js_get args ''groupId'')
      else if name = ''learningsuite_add_courses_to_group''
        then addCoursesToGroup E (js_get args ''groupId'') (js_get args ''courseIds'')
      else if name = ''learningsuite_remove_courses_from_group''
        then removeCoursesFromGroup E (js_get args ''groupId'') (js_get args ''courseIds'')
      else if name = ''learningsuite_add_bundles_to_group''
        then addBundlesToGroup E (js_get args ''groupId'') (js_get args ''bundleIds'')
      else if name = ''learningsuite_add_members_to_groups''
        then addMembersToGroups E (JObj args)
      else if name = ''learningsuite_remove_members_from_groups''
        then removeMembersFromGroups E (JObj args)
      else if name = ''learningsuite_list_published_courses''
        then getPublishedCourses E
      else if name = ''learningsuite_get_course_modules''
        then getCourseModules E (js_get args ''courseId'')
      else if name = ''learningsuite_get_course_modules_for_member''
        then getCourseModulesForMember E (js_get args ''courseId'') (js_get args ''memberId'')
      else if name = ''learningsuite_get_course_members''
        then getCourseMembers E (js_get args ''courseId'') (Some args)
      else if name = ''learningsuite_get_course_access_requests''
        then getCourseAccessRequests E (js_get args ''courseId'') (Some args)
      else if name = ''learningsuite_get_course_submissions''
        then getCourseSubmissions E (js_get args ''courseId'') (Some args)
      else if name = ''learningsuite_create_lesson''
        then createLesson E (js_get args ''courseId'') (js_get args ''sectionId'') (JObj args)
      else if name = ''learningsuite_get_module_sections''
        then getModuleSections E (js_get args ''moduleId'')
      else if name = ''learningsuite_get_module_lessons''
        then getModuleLessons E (js_get args ''moduleId'')
      else if name = ''learningsuite_create_module_unlock_override''
        then createModuleUnlockOverride E (JObj args)
      else if name = ''learningsuite_list_bundles''
        then getBundles E
      else if name = ''learningsuite_get_bundle_members''
        then getBundleMembers E (js_get args ''bundleId'') (Some args)
      else if name = ''learningsuite_list_hubs''
        then getHubs E
      else if name = ''learningsuite_create_hub''
        then createHub E (JObj args)
      else if name = ''learningsuite_list_hub_templates''
        then getHubTemplates E
      else if name = ''learningsuite_get_hub_template_variables''
        then getHubTemplateVariables E (js_get args ''hubTemplateId'')
      else if name = ''learningsuite_add_hub_accesses''
        then addHubAccesses E (js_get args ''hubId'') (JObj args)
      else if name = ''learningsuite_remove_hub_accesses''
        then removeHubAccesses E (js_get args ''hubId'') (JObj args)
      else if name = ''learningsuite_list_community_areas''
        then getCommunityAreas E
      else if name = ''learningsuite_list_community_forums''
        then getCommunityForums E (Some args)
      else if name = ''learningsuite_list_community_posts''
        then getCommunityPosts E (Some args)
      else if name = ''learningsuite_comment_on_post''
        then commentOnPost E (js_get args ''postId'') (JObj args)
      else if name = ''learningsuite_list_community_badges''
        then getCommunityBadges E
      else if name = ''learningsuite_assign_badges_to_user''
        then assignBadgesToUser E (JObj args)
      else if name = ''learningsuite_remove_badges_from_user''
        then removeBadgesFromUser E (JObj args)
      else if name = ''learningsuite_list_popups''
        then getPopups E (Some args)
      else if name = ''learningsuite_get_popup''
        then getPopup E (js_get args ''popupId'')
      else if name = ''learningsuite_trigger_popup''
        then triggerPopup E (js_get args ''popupId'') (js_get args ''memberId'')
      else if name = ''learningsuite_remove_popup_trigger''
        then removePopupTrigger E (js_get args ''popupId'') (js_get args ''memberId'')
      else if name = ''learningsuite_send_push_notifications''
        then sendPushNotifications E (JObj args)
      else if name = ''learningsuite_list_roles''
        then getRoles E
      else if name = ''learningsuite_list_webhook_subscriptions''
        then getWebhookSubscriptions E
      else if name = ''learningsuite_create_webhook_subscription''
        then createWebhookSubscription E (JObj args)
      else if name = ''learningsuite_get_webhook_subscription''
        then getWebhookSubscription E (js_get args ''subscriptionId'')
      else if name = ''learningsuite_update_webhook_subscription''
        then (let subscriptionId = js_get args ''subscriptionId''; data = js_rest args ''subscriptionId''
              in updateWebhookSubscription E subscriptionId (JObj data))
      else if name = ''learningsuite_delete_webhook_subscription''
        then deleteWebhookSubscription E (js_get args ''subscriptionId'')
      else if name = ''learningsuite_get_webhook_sample_data''
        then getWebhookSampleData E (js_get args ''eventType'')
      else ([], Inl (Error (''Unknown tool: '' @ name))))"

section \<open>The protocol handlers\<close>

text \<open>
  The result of a tool call: a list of text blocks and the optional \<^verbatim>\<open>isError\<close>
  field (\<open>None\<close> when the returned object has no such field). The text of a block is
  what \<^verbatim>\<open>JSON.stringify\<close> returned.
\<close>

record text_block =
  block_type :: string
  block_text :: "string option"

record envelope =
  content :: "text_block list"
  isError :: "bool option"

text \<open>The \<^verbatim>\<open>CallToolRequestSchema\<close> handler: \<^verbatim>\<open>try\<close> the call, \<^verbatim>\<open>catch\<close> whatever it throws.\<close>

definition CallTool :: "env \<Rightarrow> string \<Rightarrow> jsobject \<Rightarrow> http_request list \<times> envelope" where
  "CallTool E name args =
     (case handleToolCall E name args of
        (sent, Inr result) \<Rightarrow>
          (sent, \<lparr>content = [\<lparr>block_type = ''text'', block_text = JSON_stringify result 2\<rparr>],
                  isError = None\<rparr>)
      | (sent, Inl error) \<Rightarrow>
          (let errorMessage = (case error of Error message \<Rightarrow> message
                                           | Thrown v \<Rightarrow> js_String v)
           in (sent, \<lparr>content = [\<lparr>block_type = ''text'', block_text = Some (''Error: '' @ errorMessage)\<rparr>],
                      isError = Some True\<rparr>)))"

section \<open>The Tool Registry\<close>

text \<open>
  A tool descriptor; its input schema is a JSON object. \<open>tools\<close> is the array of
  \<^verbatim>\<open>index.ts\<close>, entry by entry.
\<close>

record tool =
  name :: string
  description :: string
  inputSchema :: jsval

definition tools :: "tool list" where
  "tools = [
    \<lparr>name = ''learningsuite_check_auth'',
     description = ''Check if the API key is valid and get authorization info'',
     inputSchema = JObj [(''type'', JStr ''object''), (''properties'', JObj []), (''required'', JArr [])]\<rparr>,
    \<lparr>name = ''learningsuite_list_members'',
     description = ''Get all members with optional filtering and pagination'',
     inputSchema = JObj [
       (''type'', JStr ''object''),
       (''properties'', JObj [
         (''includeGroups'', JObj [
           (''type'', JStr ''boolean''),
           (''description'', JStr ''Include groups the member is part of'')]),
         (''days_not_logged_in_gte'', JObj [
           (''type'', JStr ''number''),
           (''description'', JStr ''Minimum days since last login'')]),
         (''include_never_logged_in'', JObj [
           (''type'', JStr ''boolean''),
           (''description'', JStr ''Include users who never logged in'')]),
         (''limit'', JObj [
           (''type'', JStr ''number''),
           (''description'', JStr ''Maximum number of members to return (default: 1000)'')]),
         (''offset'', JObj [
           (''type'', JStr ''number''),
           (''description'', JStr ''Number of members to skip for pagination'')])]),
       (''required'', JArr [])]\<rparr>,
    \<lparr>name = ''learningsuite_create_member'',
     description = ''Create a new member in LearningSuite'',
     inputSchema = JObj [
       (''type'', JStr ''object''),
       (''properties'', JObj [
         (''email'', JObj [(''type'', JStr ''string''), (''description'', JStr ''Member email address'')]),
         (''firstName'', JObj [(''type'', JStr ''string''), (''description'', JStr ''First name'')]),
         (''lastName'', JObj [(''type'', JStr ''string''), (''description'', JStr ''Last name'')]),
         (''phone'', JObj [(''type'', JStr ''string''), (''description'', JStr ''Phone number'')]),
         (''about'', JObj [(''type'', JStr ''string''), (''description'', JStr ''About text'')]),
         (''position'', JObj [(''type'', JStr ''string''), (''description'', JStr ''Position/title'')]),
         (''city'', JObj [(''type'', JStr ''string''), (''description'', JStr ''City'')]),
         (''password'', JObj [(''type'', JStr ''string''), (''description'', JStr ''Initial password'')]),
         (''disableLoginEmail'', JObj [
           (''type'', JStr ''boolean''),
           (''description'', JStr ''Do not send welcome email'')]),
         (''doNotRequirePasswordChange'', JObj [
           (''type'', JStr ''boolean''),
           (''description'', JStr ''Do not require password change on first login'')]),
         (''locale'', JObj [
           (''type'', JStr ''string''),
           (''enum'', JArr [JStr ''de'', JStr ''en'']),
           (''description'', JStr ''Language setting'')]),
         (''ignoreIfAlreadyExists'', JObj [
           (''type'', JStr ''boolean''),
           (''description'', JStr ''Return existing member if email exists'')])]),
       (''required'', JArr [JStr ''email'', JStr ''firstName'', JStr ''lastName''])]\<rparr>,
    \<lparr>name = ''learningsuite_get_member'',
     description = ''Get a member by ID'',
     inputSchema = JObj [
       (''type'', JStr ''object''),
       (''properties'', JObj [
         (''memberId'', JObj [(''type'', JStr ''string''), (''description'', JStr ''Member ID'')]),
         (''includeGroups'', JObj [
           (''type'', JStr ''boolean''),
           (''description'', JStr ''Include groups the member is part of'')])]),
       (''required'', JArr [JStr ''memberId''])]\<rparr>,
    \<lparr>name = ''learningsuite_get_member_by_email'',
     description = ''Get a member by email address'',
     inputSchema = JObj [
       (''type'', JStr ''object''),
       (''properties'', JObj [
         (''email'', JObj [(''type'', JStr ''string''), (''description'', JStr ''Member email address'')]),
         (''includeGroups'', JObj [
           (''type'', JStr ''boolean''),
           (''description'', JStr ''Include groups the member is part of'')])]),
       (''required'', JArr [JStr ''email''])]\<rparr>,
    \<lparr>name = ''learningsuite_update_member'',
     description = ''Update a member's information'',
     inputSchema = JObj [
       (''type'', JStr ''object''),
       (''properties'', JObj [
         (''memberId'', JObj [(''type'', JStr ''string''), (''description'', JStr ''Member ID'')]),
         (''enabled'', JObj [(''type'', JStr ''boolean''), (''description'', JStr ''Enable/disable member'')]),
         (''firstName'', JObj [(''type'', JStr ''string''), (''description'', JStr ''First name'')]),
         (''lastName'', JObj [(''type'', JStr ''string''), (''description'', JStr ''Last name'')]),
         (''phone'', JObj [(''type'', JStr ''string''), (''description'', JStr ''Phone number'')]),
         (''about'', JObj [(''type'', JStr ''string''), (''description'', JStr ''About text'')]),
         (''position'', JObj [(''type'', JStr ''string''), (''description'', JStr ''Position/title'')]),
         (''city'', JObj [(''type'', JStr ''string''), (''description'', JStr ''City'')]),
         (''email'', JObj [(''type'', JStr ''string''), (''description'', JStr ''New email address'')]),
         (''locale'', JObj [
           (''type'', JStr ''string''),
           (''enum'', JArr [JStr ''de'', JStr ''en'']),
           (''description'', JStr ''Language setting'')])]),
       (''required'', JArr [JStr ''memberId''])]\<rparr>,
    \<lparr>name = ''learningsuite_delete_member'',
     description = ''Delete a member'',
     inputSchema = JObj [
       (''type'', JStr ''object''),
       (''properties'', JObj [
         (''memberId'', JObj [(''type'', JStr ''string''), (''description'', JStr ''Member ID'')])]),
       (''required'', JArr [JStr ''memberId''])]\<rparr>,
    \<lparr>name = ''learningsuite_get_member_courses'',
     description = ''Get all courses for a member with access and progress info'',
     inputSchema = JObj [
       (''type'', JStr ''object''),
       (''properties'', JObj [
         (''memberId'', JObj [(''type'', JStr ''string''), (''description'', JStr ''Member ID'')]),
         (''dateForAccessCheck'', JObj [
           (''type'', JStr ''string''),
           (''description'', JStr ''Date for access check (ISO format)'')]),
         (''limit'', JObj [
           (''type'', JStr ''number''),
           (''description'', JStr ''Maximum courses to return'')]),
         (''offset'', JObj [(''type'', JStr ''number''), (''description'', JStr ''Offset for pagination'')])]),
       (''required'', JArr [JStr ''memberId''])]\<rparr>,
    \<lparr>name = ''learningsuite_add_member_to_courses'',
     description = ''Add a member to one or more courses'',
     inputSchema = JObj [
       (''type'', JStr ''object''),
       (''properties'', JObj [
         (''memberId'', JObj [(''type'', JStr ''string''), (''description'', JStr ''Member ID'')]),
         (''courseIds'', JObj [
           (''type'', JStr ''array''),
           (''items'', JObj [(''type'', JStr ''string'')]),
           (''description'', JStr ''Array of course IDs'')]),
         (''accessGivenAt'', JObj [
           (''type'', JStr ''string''),
           (''description'', JStr ''When access was given (ISO format)'')]),
         (''disableAccessNotificationEmail'', JObj [
           (''type'', JStr ''boolean''),
           (''description'', JStr ''Do not send access notification email'')]),
         (''sendLoginLinkInCourseEmail'', JObj [
           (''type'', JStr ''boolean''),
           (''description'', JStr ''Include login link in course email'')])]),
       (''required'', JArr [JStr ''memberId'', JStr ''courseIds''])]\<rparr>,
    \<lparr>name = ''learningsuite_remove_member_from_courses'',
     description = ''Remove a member from one or more courses'',
     inputSchema = JObj [
       (''type'', JStr ''object''),
       (''properties'', JObj [
         (''memberId'', JObj [(''type'', JStr ''string''), (''description'', JStr ''Member ID'')]),
         (''courseIds'', JObj [
           (''type'', JStr ''array''),
           (''items'', JObj [(''type'', JStr ''string'')]),
           (''description'', JStr ''Array of course IDs'')])]),
       (''required'', JArr [JStr ''memberId'', JStr ''courseIds''])]\<rparr>,
    \<lparr>name = ''learningsuite_get_member_course_info'',
     description = ''Get access and progress info for a member in a specific course'',
     inputSchema = JObj [
       (''type'', JStr ''object''),
       (''properties'', JObj [
         (''memberId'', JObj [(''type'', JStr ''string''), (''description'', JStr ''Member ID'')]),
         (''courseId'', JObj [(''type'', JStr ''string''), (''description'', JStr ''Course ID'')]),
         (''dateForAccessCheck'', JObj [
           (''type'', JStr ''string''),
           (''description'', JStr ''Date for access check (ISO format)'')])]),
       (''required'', JArr [JStr ''memberId'', JStr ''courseId''])]\<rparr>,
    \<lparr>name = ''learningsuite_get_member_bundles'',
     description = ''Get all bundles of a member with access information'',
     inputSchema = JObj [
       (''type'', JStr ''object''),
       (''properties'', JObj [
         (''memberId'', JObj [(''type'', JStr ''string''), (''description'', JStr ''Member ID'')])]),
       (''required'', JArr [JStr ''memberId''])]\<rparr>,
    \<lparr>name = ''learningsuite_add_member_to_bundles'',
     description = ''Add a member to one or more bundles'',
     inputSchema = JObj [
       (''type'', JStr ''object''),
       (''properties'', JObj [
         (''memberId'', JObj [(''type'', JStr ''string''), (''description'', JStr ''Member ID'')]),
         (''bundles'', JObj [
           (''type'', JStr ''array''),
           (''items'', JObj [(''type'', JStr ''string'')]),
           (''description'', JStr ''Array of bundle IDs'')]),
         (''accessGivenAtOverride'', JObj [
           (''type'', JStr ''string''),
           (''description'', JStr ''Override access start date (ISO format)'')]),
         (''accessUntilOverride'', JObj [
           (''type'', JStr ''string''),
           (''description'', JStr ''Override access end date (ISO format)'')]),
         (''unlimitedAccess'', JObj [(''type'', JStr ''boolean''), (''description'', JStr ''Grant unlimited access'')]),
         (''disableAccessNotificationEmail'', JObj [
           (''type'', JStr ''boolean''),
           (''description'', JStr ''Do not send access notification email'')])]),
       (''required'', JArr [JStr ''memberId'', JStr ''bundles''])]\<rparr>,
    \<lparr>name = ''learningsuite_remove_member_from_bundles'',
     description = ''Remove a member from one or more bundles'',
     inputSchema = JObj [
       (''type'', JStr ''object''),
       (''properties'', JObj [
         (''memberId'', JObj [(''type'', JStr ''string''), (''description'', JStr ''Member ID'')]),
         (''bundleIds'', JObj [
           (''type'', JStr ''array''),
           (''items'', JObj [(''type'', JStr ''string'')]),
           (''description'', JStr ''Array of bundle IDs'')])]),
       (''required'', JArr [JStr ''memberId'', JStr ''bundleIds''])]\<rparr>,
    \<lparr>name = ''learningsuite_list_team_members'',
     description = ''Get team members (users with admin zone access)'',
     inputSchema = JObj [
       (''type'', JStr ''object''),
       (''properties'', JObj [
         (''limit'', JObj [
           (''type'', JStr ''number''),
           (''description'', JStr ''Maximum to return (max 100)'')]),
         (''offset'', JObj [(''type'', JStr ''number''), (''description'', JStr ''Offset for pagination'')])]),
       (''required'', JArr [])]\<rparr>,
    \<lparr>name = ''learningsuite_get_team_member'',
     description = ''Get a team member by ID'',
     inputSchema = JObj [
       (''type'', JStr ''object''),
       (''properties'', JObj [
         (''userId'', JObj [(''type'', JStr ''string''), (''description'', JStr ''User ID'')])]),
       (''required'', JArr [JStr ''userId''])]\<rparr>,
    \<lparr>name = ''learningsuite_get_team_member_by_email'',
     description = ''Get a team member by email'',
     inputSchema = JObj [
       (''type'', JStr ''object''),
       (''properties'', JObj [
         (''email'', JObj [(''type'', JStr ''string''), (''description'', JStr ''Email address'')])]),
       (''required'', JArr [JStr ''email''])]\<rparr>,
    \<lparr>name = ''learningsuite_list_groups'',
     description = ''Get all groups'',
     inputSchema = JObj [
       (''type'', JStr ''object''),
       (''properties'', JObj [
         (''limit'', JObj [(''type'', JStr ''number''), (''description'', JStr ''Maximum to return'')]),
         (''offset'', JObj [(''type'', JStr ''number''), (''description'', JStr ''Offset for pagination'')])]),
       (''required'', JArr [])]\<rparr>,
    \<lparr>name = ''learningsuite_create_group'',
     description = ''Create a new group'',
     inputSchema = JObj [
       (''type'', JStr ''object''),
       (''properties'', JObj [
         (''name'', JObj [(''type'', JStr ''string''), (''description'', JStr ''Group name'')]),
         (''description'', JObj [(''type'', JStr ''string''), (''description'', JStr ''Group description'')])]),
       (''required'', JArr [JStr ''name''])]\<rparr>,
    \<lparr>name = ''learningsuite_find_groups_by_name'',
     description = ''Find groups by name'',
     inputSchema = JObj [
       (''type'', JStr ''object''),
       (''properties'', JObj [
         (''name'', JObj [
           (''type'', JStr ''string''),
           (''description'', JStr ''Group name to search for'')])]),
       (''required'', JArr [JStr ''name''])]\<rparr>,
    \<lparr>name = ''learningsuite_delete_group'',
     description = ''Delete a group'',
     inputSchema = JObj [
       (''type'', JStr ''object''),
       (''properties'', JObj [
         (''groupId'', JObj [(''type'', JStr ''string''), (''description'', JStr ''Group ID'')])]),
       (''required'', JArr [JStr ''groupId''])]\<rparr>,
    \<lparr>name = ''learningsuite_get_group_courses'',
     description = ''Get all courses of a group'',
     inputSchema = JObj [
       (''type'', JStr ''object''),
       (''properties'', JObj [
         (''groupId'', JObj [(''type'', JStr ''string''), (''description'', JStr ''Group ID'')])]),
       (''required'', JArr [JStr ''groupId''])]\<rparr>,
    \<lparr>name = ''learningsuite_add_courses_to_group'',
     description = ''Add courses to a group'',
     inputSchema = JObj [
       (''type'', JStr ''object''),
       (''properties'', JObj [
         (''groupId'', JObj [(''type'', JStr ''string''), (''description'', JStr ''Group ID'')]),
         (''courseIds'', JObj [
           (''type'', JStr ''array''),
           (''items'', JObj [(''type'', JStr ''string'')]),
           (''description'', JStr ''Array of course IDs'')])]),
       (''required'', JArr [JStr ''groupId'', JStr ''courseIds''])]\<rparr>,
    \<lparr>name = ''learningsuite_remove_courses_from_group'',
     description = ''Remove courses from a group'',
     inputSchema = JObj [
       (''type'', JStr ''object''),
       (''properties'', JObj [
         (''groupId'', JObj [(''type'', JStr ''string''), (''description'', JStr ''Group ID'')]),
         (''courseIds'', JObj [
           (''type'', JStr ''array''),
           (''items'', JObj [(''type'', JStr ''string'')]),
           (''description'', JStr ''Array of course IDs'')])]),
       (''required'', JArr [JStr ''groupId'', JStr ''courseIds''])]\<rparr>,
    \<lparr>name = ''learningsuite_add_bundles_to_group'',
     description = ''Add bundles to a group'',
     inputSchema = JObj [
       (''type'', JStr ''object''),
       (''properties'', JObj [
         (''groupId'', JObj [(''type'', JStr ''string''), (''description'', JStr ''Group ID'')]),
         (''bundleIds'', JObj [
           (''type'', JStr ''array''),
           (''items'', JObj [(''type'', JStr ''string'')]),
           (''description'', JStr ''Array of bundle IDs'')])]),
       (''required'', JArr [JStr ''groupId'', JStr ''bundleIds''])]\<rparr>,
    \<lparr>name = ''learningsuite_add_members_to_groups'',
     description = ''Add multiple members to multiple groups (batch operation)'',
     inputSchema = JObj [
       (''type'', JStr ''object''),
       (''properties'', JObj [
         (''memberIds'', JObj [
           (''type'', JStr ''array''),
           (''items'', JObj [(''type'', JStr ''string'')]),
           (''description'', JStr ''Array of member IDs'')]),
         (''groupIds'', JObj [
           (''type'', JStr ''array''),
           (''items'', JObj [(''type'', JStr ''string'')]),
           (''description'', JStr ''Array of group IDs'')])]),
       (''required'', JArr [JStr ''memberIds'', JStr ''groupIds''])]\<rparr>,
    \<lparr>name = ''learningsuite_remove_members_from_groups'',
     description = ''Remove multiple members from multiple groups (batch operation)'',
     inputSchema = JObj [
       (''type'', JStr ''object''),
       (''properties'', JObj [
         (''memberIds'', JObj [
           (''type'', JStr ''array''),
           (''items'', JObj [(''type'', JStr ''string'')]),
           (''description'', JStr ''Array of member IDs'')]),
         (''groupIds'', JObj [
           (''type'', JStr ''array''),
           (''items'', JObj [(''type'', JStr ''string'')]),
           (''description'', JStr ''Array of group IDs'')])]),
       (''required'', JArr [JStr ''memberIds'', JStr ''groupIds''])]\<rparr>,
    \<lparr>name = ''learningsuite_list_published_courses'',
     description = ''Get all published courses'',
     inputSchema = JObj [(''type'', JStr ''object''), (''properties'', JObj []), (''required'', JArr [])]\<rparr>,
    \<lparr>name = ''learningsuite_get_course_modules'',
     description = ''Get all modules of a course'',
     inputSchema = JObj [
       (''type'', JStr ''object''),
       (''properties'', JObj [
         (''courseId'', JObj [(''type'', JStr ''string''), (''description'', JStr ''Course ID'')])]),
       (''required'', JArr [JStr ''courseId''])]\<rparr>,
    \<lparr>name = ''learningsuite_get_course_modules_for_member'',
     description = ''Get all modules of a course with visibility info for a member'',
     inputSchema = JObj [
       (''type'', JStr ''object''),
       (''properties'', JObj [
         (''courseId'', JObj [(''type'', JStr ''string''), (''description'', JStr ''Course ID'')]),
         (''memberId'', JObj [(''type'', JStr ''string''), (''description'', JStr ''Member ID'')])]),
       (''required'', JArr [JStr ''courseId'', JStr ''memberId''])]\<rparr>,
    \<lparr>name = ''learningsuite_get_course_members'',
     description = ''Get members for a course with access and optional progress info'',
     inputSchema = JObj [
       (''type'', JStr ''object''),
       (''properties'', JObj [
         (''courseId'', JObj [(''type'', JStr ''string''), (''description'', JStr ''Course ID'')]),
         (''limit'', JObj [
           (''type'', JStr ''number''),
           (''description'', JStr ''Maximum to return (max 100)'')]),
         (''offset'', JObj [(''type'', JStr ''number''), (''description'', JStr ''Offset for pagination'')]),
         (''includeProgress'', JObj [(''type'', JStr ''boolean''), (''description'', JStr ''Include progress info'')])]),
       (''required'', JArr [JStr ''courseId''])]\<rparr>,
    \<lparr>name = ''learningsuite_get_course_access_requests'',
     description = ''Get access requests for a course'',
     inputSchema = JObj [
       (''type'', JStr ''object''),
       (''properties'', JObj [
         (''courseId'', JObj [(''type'', JStr ''string''), (''description'', JStr ''Course ID'')]),
         (''limit'', JObj [(''type'', JStr ''number''), (''description'', JStr ''Maximum to return'')]),
         (''offset'', JObj [(''type'', JStr ''number''), (''description'', JStr ''Offset for pagination'')])]),
       (''required'', JArr [JStr ''courseId''])]\<rparr>,
    \<lparr>name = ''learningsuite_get_course_submissions'',
     description = ''Get all submissions in a course (newest first)'',
     inputSchema = JObj [
       (''type'', JStr ''object''),
       (''properties'', JObj [
         (''courseId'', JObj [(''type'', JStr ''string''), (''description'', JStr ''Course ID'')]),
         (''limit'', JObj [(''type'', JStr ''number''), (''description'', JStr ''Maximum to return'')]),
         (''offset'', JObj [(''type'', JStr ''number''), (''description'', JStr ''Offset for pagination'')])]),
       (''required'', JArr [JStr ''courseId''])]\<rparr>,
    \<lparr>name = ''learningsuite_create_lesson'',
     description = ''Create a lesson in a course section'',
     inputSchema = JObj [
       (''type'', JStr ''object''),
       (''properties'', JObj [
         (''courseId'', JObj [(''type'', JStr ''string''), (''description'', JStr ''Course ID'')]),
         (''sectionId'', JObj [(''type'', JStr ''string''), (''description'', JStr ''Section ID'')]),
         (''name'', JObj [(''type'', JStr ''string''), (''description'', JStr ''Lesson name'')]),
         (''htmlContent'', JObj [
           (''type'', JStr ''string''),
           (''description'', JStr ''HTML content for the lesson'')]),
         (''videoUrl'', JObj [(''type'', JStr ''string''), (''description'', JStr ''Downloadable video URL'')]),
         (''thumbnailUrl'', JObj [
           (''type'', JStr ''string''),
           (''description'', JStr ''Downloadable thumbnail image URL'')]),
         (''timestampInSecondsToGenerateThumbnail'', JObj [
           (''type'', JStr ''number''),
           (''description'', JStr ''Video timestamp for thumbnail generation'')]),
         (''immediatelyPublishCourse'', JObj [
           (''type'', JStr ''boolean''),
           (''description'', JStr ''Publish course immediately after creating lesson'')]),
         (''lessonSortPosition'', JObj [
           (''type'', JStr ''string''),
           (''enum'', JArr [JStr ''first'', JStr ''last'']),
           (''description'', JStr ''Position of the lesson in the section'')])]),
       (''required'', JArr [JStr ''courseId'', JStr ''sectionId'', JStr ''name''])]\<rparr>,
    \<lparr>name = ''learningsuite_get_module_sections'',
     description = ''Get all sections of a module'',
     inputSchema = JObj [
       (''type'', JStr ''object''),
       (''properties'', JObj [
         (''moduleId'', JObj [(''type'', JStr ''string''), (''description'', JStr ''Module ID'')])]),
       (''required'', JArr [JStr ''moduleId''])]\<rparr>,
    \<lparr>name = ''learningsuite_get_module_lessons'',
     description = ''Get all lessons of a module'',
     inputSchema = JObj [
       (''type'', JStr ''object''),
       (''properties'', JObj [
         (''moduleId'', JObj [(''type'', JStr ''string''), (''description'', JStr ''Module ID'')])]),
       (''required'', JArr [JStr ''moduleId''])]\<rparr>,
    \<lparr>name = ''learningsuite_create_module_unlock_override'',
     description = ''Create a module unlock override for a member'',
     inputSchema = JObj [
       (''type'', JStr ''object''),
       (''properties'', JObj [
         (''memberId'', JObj [(''type'', JStr ''string''), (''description'', JStr ''Member ID'')]),
         (''moduleId'', JObj [(''type'', JStr ''string''), (''description'', JStr ''Module ID'')]),
         (''unlockAt'', JObj [
           (''type'', JStr ''string''),
           (''description'', JStr ''When to unlock the module (ISO format)'')])]),
       (''required'', JArr [JStr ''memberId'', JStr ''moduleId''])]\<rparr>,
    \<lparr>name = ''learningsuite_list_bundles'',
     description = ''Get all bundles'',
     inputSchema = JObj [(''type'', JStr ''object''), (''properties'', JObj []), (''required'', JArr [])]\<rparr>,
    \<lparr>name = ''learningsuite_get_bundle_members'',
     description = ''Get members of a bundle with access info'',
     inputSchema = JObj [
       (''type'', JStr ''object''),
       (''properties'', JObj [
         (''bundleId'', JObj [(''type'', JStr ''string''), (''description'', JStr ''Bundle ID'')]),
         (''limit'', JObj [
           (''type'', JStr ''number''),
           (''description'', JStr ''Maximum to return (max 200)'')]),
         (''offset'', JObj [(''type'', JStr ''number''), (''description'', JStr ''Offset for pagination'')])]),
       (''required'', JArr [JStr ''bundleId''])]\<rparr>,
    \<lparr>name = ''learningsuite_list_hubs'',
     description = ''Get all published hubs'',
     inputSchema = JObj [(''type'', JStr ''object''), (''properties'', JObj []), (''required'', JArr [])]\<rparr>,
    \<lparr>name = ''learningsuite_create_hub'',
     description = ''Create a new hub from a template'',
     inputSchema = JObj [
       (''type'', JStr ''object''),
       (''properties'', JObj [
         (''name'', JObj [(''type'', JStr ''string''), (''description'', JStr ''Hub name'')]),
         (''hubTemplateId'', JObj [(''type'', JStr ''string''), (''description'', JStr ''Hub template ID'')]),
         (''variables'', JObj [(''type'', JStr ''object''), (''description'', JStr ''Template variables'')])]),
       (''required'', JArr [JStr ''name'', JStr ''hubTemplateId''])]\<rparr>,
    \<lparr>name = ''learningsuite_list_hub_templates'',
     description = ''Get all hub templates'',
     inputSchema = JObj [(''type'', JStr ''object''), (''properties'', JObj []), (''required'', JArr [])]\<rparr>,
    \<lparr>name = ''learningsuite_get_hub_template_variables'',
     description = ''Get variables for a hub template'',
     inputSchema = JObj [
       (''type'', JStr ''object''),
       (''properties'', JObj [
         (''hubTemplateId'', JObj [(''type'', JStr ''string''), (''description'', JStr ''Hub template ID'')])]),
       (''required'', JArr [JStr ''hubTemplateId''])]\<rparr>,
    \<lparr>name = ''learningsuite_add_hub_accesses'',
     description = ''Add access to a hub for members, groups, or bundles'',
     inputSchema = JObj [
       (''type'', JStr ''object''),
       (''properties'', JObj [
         (''hubId'', JObj [(''type'', JStr ''string''), (''description'', JStr ''Hub ID'')]),
         (''memberIds'', JObj [
           (''type'', JStr ''array''),
           (''items'', JObj [(''type'', JStr ''string'')]),
           (''description'', JStr ''Array of member IDs'')]),
         (''groupIds'', JObj [
           (''type'', JStr ''array''),
           (''items'', JObj [(''type'', JStr ''string'')]),
           (''description'', JStr ''Array of group IDs'')]),
         (''bundleIds'', JObj [
           (''type'', JStr ''array''),
           (''items'', JObj [(''type'', JStr ''string'')]),
           (''description'', JStr ''Array of bundle IDs'')])]),
       (''required'', JArr [JStr ''hubId''])]\<rparr>,
    \<lparr>name = ''learningsuite_remove_hub_accesses'',
     description = ''Remove access from a hub for members, groups, or bundles'',
     inputSchema = JObj [
       (''type'', JStr ''object''),
       (''properties'', JObj [
         (''hubId'', JObj [(''type'', JStr ''string''), (''description'', JStr ''Hub ID'')]),
         (''memberIds'', JObj [
           (''type'', JStr ''array''),
           (''items'', JObj [(''type'', JStr ''string'')]),
           (''description'', JStr ''Array of member IDs'')]),
         (''groupIds'', JObj [
           (''type'', JStr ''array''),
           (''items'', JObj [(''type'', JStr ''string'')]),
           (''description'', JStr ''Array of group IDs'')]),
         (''bundleIds'', JObj [
           (''type'', JStr ''array''),
           (''items'', JObj [(''type'', JStr ''string'')]),
           (''description'', JStr ''Array of bundle IDs'')])]),
       (''required'', JArr [JStr ''hubId''])]\<rparr>,
    \<lparr>name = ''learningsuite_list_community_areas'',
     description = ''Get all community areas'',
     inputSchema = JObj [(''type'', JStr ''object''), (''properties'', JObj []), (''required'', JArr [])]\<rparr>,
    \<lparr>name = ''learningsuite_list_community_forums'',
     description = ''Get community forums'',
     inputSchema = JObj [
       (''type'', JStr ''object''),
       (''properties'', JObj [
         (''areaId'', JObj [(''type'', JStr ''string''), (''description'', JStr ''Filter by area ID'')]),
         (''limit'', JObj [(''type'', JStr ''number''), (''description'', JStr ''Maximum to return'')]),
         (''offset'', JObj [(''type'', JStr ''number''), (''description'', JStr ''Offset for pagination'')])]),
       (''required'', JArr [])]\<rparr>,
    \<lparr>name = ''learningsuite_list_community_posts'',
     description = ''Get community posts'',
     inputSchema = JObj [
       (''type'', JStr ''object''),
       (''properties'', JObj [
         (''forumId'', JObj [(''type'', JStr ''string''), (''description'', JStr ''Filter by forum ID'')]),
         (''limit'', JObj [(''type'', JStr ''number''), (''description'', JStr ''Maximum to return'')]),
         (''offset'', JObj [(''type'', JStr ''number''), (''description'', JStr ''Offset for pagination'')])]),
       (''required'', JArr [])]\<rparr>,
    \<lparr>name = ''learningsuite_comment_on_post'',
     description = ''Comment on a community post'',
     inputSchema = JObj [
       (''type'', JStr ''object''),
       (''properties'', JObj [
         (''postId'', JObj [(''type'', JStr ''string''), (''description'', JStr ''Post ID'')]),
         (''content'', JObj [(''type'', JStr ''string''), (''description'', JStr ''Comment content'')]),
         (''parentCommentId'', JObj [
           (''type'', JStr ''string''),
           (''description'', JStr ''Parent comment ID for replies'')])]),
       (''required'', JArr [JStr ''postId'', JStr ''content''])]\<rparr>,
    \<lparr>name = ''learningsuite_list_community_badges'',
     description = ''Get all community badges'',
     inputSchema = JObj [(''type'', JStr ''object''), (''properties'', JObj []), (''required'', JArr [])]\<rparr>,
    \<lparr>name = ''learningsuite_assign_badges_to_user'',
     description = ''Assign badges to a user'',
     inputSchema = JObj [
       (''type'', JStr ''object''),
       (''properties'', JObj [
         (''userId'', JObj [(''type'', JStr ''string''), (''description'', JStr ''User ID'')]),
         (''badgeIds'', JObj [
           (''type'', JStr ''array''),
           (''items'', JObj [(''type'', JStr ''string'')]),
           (''description'', JStr ''Array of badge IDs'')])]),
       (''required'', JArr [JStr ''userId'', JStr ''badgeIds''])]\<rparr>,
    \<lparr>name = ''learningsuite_remove_badges_from_user'',
     description = ''Remove badges from a user'',
     inputSchema = JObj [
       (''type'', JStr ''object''),
       (''properties'', JObj [
         (''userId'', JObj [(''type'', JStr ''string''), (''description'', JStr ''User ID'')]),
         (''badgeIds'', JObj [
           (''type'', JStr ''array''),
           (''items'', JObj [(''type'', JStr ''string'')]),
           (''description'', JStr ''Array of badge IDs'')])]),
       (''required'', JArr [JStr ''userId'', JStr ''badgeIds''])]\<rparr>,
    \<lparr>name = ''learningsuite_list_popups'',
     description = ''Get all popups'',
     inputSchema = JObj [
       (''type'', JStr ''object''),
       (''properties'', JObj [
         (''limit'', JObj [(''type'', JStr ''number''), (''description'', JStr ''Maximum to return'')]),
         (''offset'', JObj [(''type'', JStr ''number''), (''description'', JStr ''Offset for pagination'')])]),
       (''required'', JArr [])]\<rparr>,
    \<lparr>name = ''learningsuite_get_popup'',
     description = ''Get a popup by ID'',
     inputSchema = JObj [
       (''type'', JStr ''object''),
       (''properties'', JObj [
         (''popupId'', JObj [(''type'', JStr ''string''), (''description'', JStr ''Popup ID'')])]),
       (''required'', JArr [JStr ''popupId''])]\<rparr>,
    \<lparr>name = ''learningsuite_trigger_popup'',
     description = ''Trigger a popup for a member'',
     inputSchema = JObj [
       (''type'', JStr ''object''),
       (''properties'', JObj [
         (''popupId'', JObj [(''type'', JStr ''string''), (''description'', JStr ''Popup ID'')]),
         (''memberId'', JObj [(''type'', JStr ''string''), (''description'', JStr ''Member ID'')])]),
       (''required'', JArr [JStr ''popupId'', JStr ''memberId''])]\<rparr>,
    \<lparr>name = ''learningsuite_remove_popup_trigger'',
     description = ''Remove a popup trigger for a member'',
     inputSchema = JObj [
       (''type'', JStr ''object''),
       (''properties'', JObj [
         (''popupId'', JObj [(''type'', JStr ''string''), (''description'', JStr ''Popup ID'')]),
         (''memberId'', JObj [(''type'', JStr ''string''), (''description'', JStr ''Member ID'')])]),
       (''required'', JArr [JStr ''popupId'', JStr ''memberId''])]\<rparr>,
    \<lparr>name = ''learningsuite_send_push_notifications'',
     description = ''Send push notifications to users (requires custom app)'',
     inputSchema = JObj [
       (''type'', JStr ''object''),
       (''properties'', JObj [
         (''userIds'', JObj [
           (''type'', JStr ''array''),
           (''items'', JObj [(''type'', JStr ''string'')]),
           (''description'', JStr ''Array of user IDs'')]),
         (''groupIds'', JObj [
           (''type'', JStr ''array''),
           (''items'', JObj [(''type'', JStr ''string'')]),
           (''description'', JStr ''Array of group IDs'')]),
         (''title'', JObj [(''type'', JStr ''string''), (''description'', JStr ''Notification title'')]),
         (''body'', JObj [(''type'', JStr ''string''), (''description'', JStr ''Notification body text'')]),
         (''linkUrl'', JObj [(''type'', JStr ''string''), (''description'', JStr ''Link URL when tapped'')]),
         (''publicImageUrl'', JObj [
           (''type'', JStr ''string''),
           (''description'', JStr ''Public image URL for notification'')])]),
       (''required'', JArr [JStr ''linkUrl''])]\<rparr>,
    \<lparr>name = ''learningsuite_list_roles'',
     description = ''Get all roles'',
     inputSchema = JObj [(''type'', JStr ''object''), (''properties'', JObj []), (''required'', JArr [])]\<rparr>,
    \<lparr>name = ''learningsuite_list_webhook_subscriptions'',
     description = ''Get all webhook subscriptions'',
     inputSchema = JObj [(''type'', JStr ''object''), (''properties'', JObj []), (''required'', JArr [])]\<rparr>,
    \<lparr>name = ''learningsuite_create_webhook_subscription'',
     description = ''Create a webhook subscription'',
     inputSchema = JObj [
       (''type'', JStr ''object''),
       (''properties'', JObj [
         (''url'', JObj [(''type'', JStr ''string''), (''description'', JStr ''Webhook URL'')]),
         (''events'', JObj [
           (''type'', JStr ''array''),
           (''items'', JObj [(''type'', JStr ''string'')]),
           (''description'', JStr ''Array of event types to subscribe to'')]),
         (''secret'', JObj [(''type'', JStr ''string''), (''description'', JStr ''Webhook secret'')])]),
       (''required'', JArr [JStr ''url'', JStr ''events''])]\<rparr>,
    \<lparr>name = ''learningsuite_get_webhook_subscription'',
     description = ''Get a webhook subscription by ID'',
     inputSchema = JObj [
       (''type'', JStr ''object''),
       (''properties'', JObj [
         (''subscriptionId'', JObj [(''type'', JStr ''string''), (''description'', JStr ''Subscription ID'')])]),
       (''required'', JArr [JStr ''subscriptionId''])]\<rparr>,
    \<lparr>name = ''learningsuite_update_webhook_subscription'',
     description = ''Update a webhook subscription'',
     inputSchema = JObj [
       (''type'', JStr ''object''),
       (''properties'', JObj [
         (''subscriptionId'', JObj [(''type'', JStr ''string''), (''description'', JStr ''Subscription ID'')]),
         (''url'', JObj [(''type'', JStr ''string''), (''description'', JStr ''Webhook URL'')]),
         (''events'', JObj [
           (''type'', JStr ''array''),
           (''items'', JObj [(''type'', JStr ''string'')]),
           (''description'', JStr ''Array of event types'')]),
         (''secret'', JObj [(''type'', JStr ''string''), (''description'', JStr ''Webhook secret'')]),
         (''enabled'', JObj [(''type'', JStr ''boolean''), (''description'', JStr ''Enable/disable webhook'')])]),
       (''required'', JArr [JStr ''subscriptionId''])]\<rparr>,
    \<lparr>name = ''learningsuite_delete_webhook_subscription'',
     description = ''Delete a webhook subscription'',
     inputSchema = JObj [
       (''type'', JStr ''object''),
       (''properties'', JObj [
         (''subscriptionId'', JObj [(''type'', JStr ''string''), (''description'', JStr ''Subscription ID'')])]),
       (''required'', JArr [JStr ''subscriptionId''])]\<rparr>,
    \<lparr>name = ''learningsuite_get_webhook_sample_data'',
     description = ''Get sample data for a webhook event type'',
     inputSchema = JObj [
       (''type'', JStr ''object''),
       (''properties'', JObj [
         (''eventType'', JObj [
           (''type'', JStr ''string''),
           (''enum'', JArr [
             JStr ''community-post-commented-events'',
             JStr ''community-post-created-events'',
             JStr ''community-post-moderated-events'',
             JStr ''course-member-added-events'',
             JStr ''course-updated-events'',
             JStr ''custom-popup-interaction-events'',
             JStr ''exam-completed-events'',
             JStr ''exam-graded-events'',
             JStr ''feedback-events'',
             JStr ''group-user-access-changed-events'',
             JStr ''lesson-completed-events'',
             JStr ''new-login-events'',
             JStr ''progress-changed-events'']),
           (''description'', JStr ''Event type'')])]),
       (''required'', JArr [JStr ''eventType''])]\<rparr>]"

text \<open>
  The server keeps the catalog for its lifetime. A protocol request is answered from
  the current state; \<open>serve\<close> answers a sequence of requests one after the other.
\<close>

record server_state =
  catalog :: "tool list"

definition initial_state :: server_state where
  "initial_state = \<lparr>catalog = tools\<rparr>"

datatype rpc_request = ListToolsRequest | CallToolRequest string jsobject

datatype rpc_response = ListToolsResult "tool list" | CallToolResult envelope

text \<open>The \<^verbatim>\<open>ListToolsRequestSchema\<close> handler returns the array as it is.\<close>

definition ListTools :: "server_state \<Rightarrow> tool list" where
  "ListTools st = catalog st"

fun handle_request ::
  "env \<Rightarrow> server_state \<Rightarrow> rpc_request \<Rightarrow> server_state \<times> http_request list \<times> rpc_response" where
  "handle_request E st ListToolsRequest = (st, [], ListToolsResult (ListTools st))"
| "handle_request E st (CallToolRequest n a) =
     (case CallTool E n a of (sent, result) \<Rightarrow> (st, sent, CallToolResult result))"

fun serve ::
  "env \<Rightarrow> server_state \<Rightarrow> rpc_request list \<Rightarrow> server_state \<times> rpc_response list" where
  "serve E st [] = (st, [])"
| "serve E st (r # rs) =
     (case handle_request E st r of
        (st', sent, resp) \<Rightarrow> (case serve E st' rs of (st'', resps) \<Rightarrow> (st'', resp # resps)))"


section \<open>Example environments\<close>

text \<open>
  Concrete remote sides on which the theorems below are exercised. \<open>example_parse\<close>
  stands for \<^verbatim>\<open>JSON.parse\<close> on the two texts the examples use: it parses one member
  object and rejects everything else, the empty text included.
\<close>

definition example_parse :: "string \<Rightarrow> thrown + jsval" where
  \<open>example_parse s =
     (if s = ''{"id":"abc123","email":"a@b.com"}''
      then Inr (JObj [(''id'', JStr ''abc123''), (''email'', JStr ''a@b.com'')])
      else Inl (Error ''Unexpected token in JSON''))\<close>

definition example_env :: "nat \<Rightarrow> string \<Rightarrow> env" where
  "example_env s b =
     \<lparr>apiKey = ''secret'',
      fetch = (\<lambda>r. Inr \<lparr>status = s, response_text = b\<rparr>),
      JSON_parse = example_parse\<rparr>"

text \<open>A remote side that cannot be reached; the rejection is not an \<^verbatim>\<open>Error\<close> object.\<close>

definition offline_env :: env where
  "offline_env =
     \<lparr>apiKey = ''secret'',
      fetch = (\<lambda>r. Inl (Thrown (JStr ''offline''))),
      JSON_parse = example_parse\<rparr>"

section \<open>Basic facts\<close>

lemmas client_simps =
  checkAuth_def getMembers_def createMember_def getMemberByEmail_def getMember_def
  updateMember_def deleteMember_def getMemberCourses_def addMemberToCourses_def
  removeMemberFromCourses_def getMemberCourseInfo_def getMemberBundles_def
  addMemberToBundles_def removeMemberFromBundles_def getTeamMembers_def getTeamMemberByEmail_def
  getTeamMember_def getGroups_def createGroup_def findGroupsByName_def deleteGroup_def
  getGroupCourses_def addCoursesToGroup_def removeCoursesFromGroup_def addBundlesToGroup_def
  addMembersToGroups_def addMembersToGroupsSummary_def removeMembersFromGroups_def
  getPublishedCourses_def getCourseModules_def getCourseModulesForMember_def
  getCourseMembers_def getCourseAccessRequests_def getCourseSubmissions_def createLesson_def
  getModuleSections_def getModuleLessons_def createModuleUnlockOverride_def getBundles_def
  getBundleMembers_def getHubs_def createHub_def getHubTemplates_def getHubTemplateVariables_def
  addHubAccesses_def removeHubAccesses_def getCommunityAreas_def getCommunityForums_def
  getCommunityPosts_def commentOnPost_def getCommunityBadges_def assignBadgesToUser_def
  removeBadgesFromUser_def getPopups_def getPopup_def triggerPopup_def removePopupTrigger_def
  sendPushNotifications_def getRoles_def getWebhookSubscriptions_def
  createWebhookSubscription_def getWebhookSubscription_def updateWebhookSubscription_def
  deleteWebhookSubscription_def getWebhookSampleData_def
text \<open>The names of the catalog, in the order of the array.\<close>

lemma tool_names:
  "map name tools =
    [''learningsuite_check_auth'', ''learningsuite_list_members'',
     ''learningsuite_create_member'', ''learningsuite_get_member'',
     ''learningsuite_get_member_by_email'', ''learningsuite_update_member'',
     ''learningsuite_delete_member'', ''learningsuite_get_member_courses'',
     ''learningsuite_add_member_to_courses'', ''learningsuite_remove_member_from_courses'',
     ''learningsuite_get_member_course_info'', ''learningsuite_get_member_bundles'',
     ''learningsuite_add_member_to_bundles'', ''learningsuite_remove_member_from_bundles'',
     ''learningsuite_list_team_members'', ''learningsuite_get_team_member'',
     ''learningsuite_get_team_member_by_email'', ''learningsuite_list_groups'',
     ''learningsuite_create_group'', ''learningsuite_find_groups_by_name'',
     ''learningsuite_delete_group'', ''learningsuite_get_group_courses'',
     ''learningsuite_add_courses_to_group'', ''learningsuite_remove_courses_from_group'',
     ''learningsuite_add_bundles_to_group'', ''learningsuite_add_members_to_groups'',
     ''learningsuite_remove_members_from_groups'', ''learningsuite_list_published_courses'',
     ''learningsuite_get_course_modules'', ''learningsuite_get_course_modules_for_member'',
     ''learningsuite_get_course_members'', ''learningsuite_get_course_access_requests'',
     ''learningsuite_get_course_submissions'', ''learningsuite_create_lesson'',
     ''learningsuite_get_module_sections'', ''learningsuite_get_module_lessons'',
     ''learningsuite_create_module_unlock_override'', ''learningsuite_list_bundles'',
     ''learningsuite_get_bundle_members'', ''learningsuite_list_hubs'',
     ''learningsuite_create_hub'', ''learningsuite_list_hub_templates'',
     ''learningsuite_get_hub_template_variables'', ''learningsuite_add_hub_accesses'',
     ''learningsuite_remove_hub_accesses'', ''learningsuite_list_community_areas'',
     ''learningsuite_list_community_forums'', ''learningsuite_list_community_posts'',
     ''learningsuite_comment_on_post'', ''learningsuite_list_community_badges'',
     ''learningsuite_assign_badges_to_user'', ''learningsuite_remove_badges_from_user'',
     ''learningsuite_list_popups'', ''learningsuite_get_popup'', ''learningsuite_trigger_popup'',
     ''learningsuite_remove_popup_trigger'', ''learningsuite_send_push_notifications'',
     ''learningsuite_list_roles'', ''learningsuite_list_webhook_subscriptions'',
     ''learningsuite_create_webhook_subscription'', ''learningsuite_get_webhook_subscription'',
     ''learningsuite_update_webhook_subscription'',
     ''learningsuite_delete_webhook_subscription'', ''learningsuite_get_webhook_sample_data'']"
  by (simp add: tools_def)

text \<open>The \<^verbatim>\<open>switch\<close>, case by case.\<close>

lemma handleToolCall_cases:
  "handleToolCall E ''learningsuite_check_auth'' args =
     checkAuth E"
  "handleToolCall E ''learningsuite_list_members'' args =
     getMembers E (Some args)"
  "handleToolCall E ''learningsuite_create_member'' args =
     createMember E (JObj args)"
  "handleToolCall E ''learningsuite_get_member'' args =
     getMember E (js_get args ''memberId'') (js_get args ''includeGroups'')"
  "handleToolCall E ''learningsuite_get_member_by_email'' args =
     getMemberByEmail E (js_get args ''email'') (js_get args ''includeGroups'')"
  "handleToolCall E ''learningsuite_update_member'' args =
     updateMember E (js_get args ''memberId'') (JObj (js_rest args ''memberId''))"
  "handleToolCall E ''learningsuite_delete_member'' args =
     deleteMember E (js_get args ''memberId'')"
  "handleToolCall E ''learningsuite_get_member_courses'' args =
     getMemberCourses E (js_get args ''memberId'') (Some args)"
  "handleToolCall E ''learningsuite_add_member_to_courses'' args =
     addMemberToCourses E (js_get args ''memberId'') (JObj args)"
  "handleToolCall E ''learningsuite_remove_member_from_courses'' args =
     removeMemberFromCourses E (js_get args ''memberId'') (js_get args ''courseIds'')"
  "handleToolCall E ''learningsuite_get_member_course_info'' args =
     getMemberCourseInfo E (js_get args ''memberId'') (js_get args ''courseId'') (js_get args ''dateForAccessCheck'')"
  "handleToolCall E ''learningsuite_get_member_bundles'' args =
     getMemberBundles E (js_get args ''memberId'')"
  "handleToolCall E ''learningsuite_add_member_to_bundles'' args =
     addMemberToBundles E (js_get args ''memberId'') (JObj args)"
  "handleToolCall E ''learningsuite_remove_member_from_bundles'' args =
     removeMemberFromBundles E (js_get args ''memberId'') (js_get args ''bundleIds'')"
  "handleToolCall E ''learningsuite_list_team_members'' args =
     getTeamMembers E (Some args)"
  "handleToolCall E ''learningsuite_get_team_member'' args =
     getTeamMember E (js_get args ''userId'')"
  "handleToolCall E ''learningsuite_get_team_member_by_email'' args =
     getTeamMemberByEmail E (js_get args ''email'')"
  "handleToolCall E ''learningsuite_list_groups'' args =
     getGroups E (Some args)"
  "handleToolCall E ''learningsuite_create_group'' args =
     createGroup E (JObj args)"
  "handleToolCall E ''learningsuite_find_groups_by_name'' args =
     findGroupsByName E (js_get args ''name'')"
  "handleToolCall E ''learningsuite_delete_group'' args =
     deleteGroup E (js_get args ''groupId'')"
  "handleToolCall E ''learningsuite_get_group_courses'' args =
     getGroupCourses E (js_get args ''groupId'')"
  "handleToolCall E ''learningsuite_add_courses_to_group'' args =
     addCoursesToGroup E (js_get args ''groupId'') (js_get args ''courseIds'')"
  "handleToolCall E ''learningsuite_remove_courses_from_group'' args =
     removeCoursesFromGroup E (js_get args ''groupId'') (js_get args ''courseIds'')"
  "handleToolCall E ''learningsuite_add_bundles_to_group'' args =
     addBundlesToGroup E (js_get args ''groupId'') (js_get args ''bundleIds'')"
  "handleToolCall E ''learningsuite_add_members_to_groups'' args =
     addMembersToGroups E (JObj args)"
  "handleToolCall E ''learningsuite_remove_members_from_groups'' args =
     removeMembersFromGroups E (JObj args)"
  "handleToolCall E ''learningsuite_list_published_courses'' args =
     getPublishedCourses E"
  "handleToolCall E ''learningsuite_get_course_modules'' args =
     getCourseModules E (js_get args ''courseId'')"
  "handleToolCall E ''learningsuite_get_course_modules_for_member'' args =
     getCourseModulesForMember E (js_get args ''courseId'') (js_get args ''memberId'')"
  "handleToolCall E ''learningsuite_get_course_members'' args =
     getCourseMembers E (js_get args ''courseId'') (Some args)"
  "handleToolCall E ''learningsuite_get_course_access_requests'' args =
     getCourseAccessRequests E (js_get args ''courseId'') (Some args)"
  "handleToolCall E ''learningsuite_get_course_submissions'' args =
     getCourseSubmissions E (js_get args ''courseId'') (Some args)"
  "handleToolCall E ''learningsuite_create_lesson'' args =
     createLesson E (js_get args ''courseId'') (js_get args ''sectionId'') (JObj args)"
  "handleToolCall E ''learningsuite_get_module_sections'' args =
     getModuleSections E (js_get args ''moduleId'')"
  "handleToolCall E ''learningsuite_get_module_lessons'' args =
     getModuleLessons E (js_get args ''moduleId'')"
  "handleToolCall E ''learningsuite_create_module_unlock_override'' args =
     createModuleUnlockOverride E (JObj args)"
  "handleToolCall E ''learningsuite_list_bundles'' args =
     getBundles E"
  "handleToolCall E ''learningsuite_get_bundle_members'' args =
     getBundleMembers E (js_get args ''bundleId'') (Some args)"
  "handleToolCall E ''learningsuite_list_hubs'' args =
     getHubs E"
  "handleToolCall E ''learningsuite_create_hub'' args =
     createHub E (JObj args)"
  "handleToolCall E ''learningsuite_list_hub_templates'' args =
     getHubTemplates E"
  "handleToolCall E ''learningsuite_get_hub_template_variables'' args =
     getHubTemplateVariables E (js_get args ''hubTemplateId'')"
  "handleToolCall E ''learningsuite_add_hub_accesses'' args =
     addHubAccesses E (js_get args ''hubId'') (JObj args)"
  "handleToolCall E ''learningsuite_remove_hub_accesses'' args =
     removeHubAccesses E (js_get args ''hubId'') (JObj args)"
  "handleToolCall E ''learningsuite_list_community_areas'' args =
     getCommunityAreas E"
  "handleToolCall E ''learningsuite_list_community_forums'' args =
     getCommunityForums E (Some args)"
  "handleToolCall E ''learningsuite_list_community_posts'' args =
     getCommunityPosts E (Some args)"
  "handleToolCall E ''learningsuite_comment_on_post'' args =
     commentOnPost E (js_get args ''postId'') (JObj args)"
  "handleToolCall E ''learningsuite_list_community_badges'' args =
     getCommunityBadges E"
  "handleToolCall E ''learningsuite_assign_badges_to_user'' args =
     assignBadgesToUser E (JObj args)"
  "handleToolCall E ''learningsuite_remove_badges_from_user'' args =
     removeBadgesFromUser E (JObj args)"
  "handleToolCall E ''learningsuite_list_popups'' args =
     getPopups E (Some args)"
  "handleToolCall E ''learningsuite_get_popup'' args =
     getPopup E (js_get args ''popupId'')"
  "handleToolCall E ''learningsuite_trigger_popup'' args =
     triggerPopup E (js_get args ''popupId'') (js_get args ''memberId'')"
  "handleToolCall E ''learningsuite_remove_popup_trigger'' args =
     removePopupTrigger E (js_get args ''popupId'') (js_get args ''memberId'')"
  "handleToolCall E ''learningsuite_send_push_notifications'' args =
     sendPushNotifications E (JObj args)"
  "handleToolCall E ''learningsuite_list_roles'' args =
     getRoles E"
  "handleToolCall E ''learningsuite_list_webhook_subscriptions'' args =
     getWebhookSubscriptions E"
  "handleToolCall E ''learningsuite_create_webhook_subscription'' args =
     createWebhookSubscription E (JObj args)"
  "handleToolCall E ''learningsuite_get_webhook_subscription'' args =
     getWebhookSubscription E (js_get args ''subscriptionId'')"
  "handleToolCall E ''learningsuite_update_webhook_subscription'' args =
     updateWebhookSubscription E (js_get args ''subscriptionId'') (JObj (js_rest args ''subscriptionId''))"
  "handleToolCall E ''learningsuite_delete_webhook_subscription'' args =
     deleteWebhookSubscription E (js_get args ''subscriptionId'')"
  "handleToolCall E ''learningsuite_get_webhook_sample_data'' args =
     getWebhookSampleData E (js_get args ''eventType'')"
  by (simp_all add: handleToolCall_def)

lemma handleToolCall_unknown:
  "n \<notin> set (map name tools) \<Longrightarrow>
     handleToolCall E n args = ([], Inl (Error (''Unknown tool: '' @ n)))"
  by (simp add: tool_names handleToolCall_def)

lemma handleToolCall_known:
  assumes "n \<in> set (map name tools)"
  shows "\<exists>method path body queryParams.
           handleToolCall E n args = request E method path body queryParams"
  using assms unfolding tool_names
  apply (simp only: list.set insert_iff empty_iff)
  apply (elim disjE FalseE)
  apply (simp_all only: handleToolCall_cases client_simps)
  apply blast+
  done

lemma request_sent:
  "fst (request E method path body queryParams) = [request_options E method path body queryParams]"
  by (simp add: request_def Let_def split: sum.splits)

lemma request_rejected:
  "fetch E (request_options E method path body queryParams) = Inl e \<Longrightarrow>
     snd (request E method path body queryParams) = Inl e"
  by (simp add: request_def Let_def)

lemma request_not_ok:
  "fetch E (request_options E method path body queryParams) = Inr response \<Longrightarrow> \<not> ok response \<Longrightarrow>
     snd (request E method path body queryParams) =
       Inl (Error (''API Error '' @ string_of_nat (status response) @ '': '' @ response_text response))"
  by (simp add: request_def Let_def)

lemma request_empty:
  "fetch E (request_options E method path body queryParams) = Inr response \<Longrightarrow> ok response \<Longrightarrow>
   response_text response = [] \<Longrightarrow>
     snd (request E method path body queryParams) = Inr (JObj [])"
  by (simp add: request_def Let_def)

lemma request_parsed:
  "fetch E (request_options E method path body queryParams) = Inr response \<Longrightarrow> ok response \<Longrightarrow>
   response_text response \<noteq> [] \<Longrightarrow>
     snd (request E method path body queryParams) = JSON_parse E (response_text response)"
  by (simp add: request_def Let_def)

lemma CallTool_sent: "fst (CallTool E n args) = fst (handleToolCall E n args)"
  by (simp add: CallTool_def Let_def split: prod.splits sum.splits)

lemma CallTool_success:
  "handleToolCall E n args = (sent, Inr result) \<Longrightarrow>
     CallTool E n args =
       (sent, \<lparr>content = [\<lparr>block_type = ''text'', block_text = JSON_stringify result 2\<rparr>],
               isError = None\<rparr>)"
  by (simp add: CallTool_def)

lemma CallTool_failure:
  "handleToolCall E n args = (sent, Inl e) \<Longrightarrow>
     CallTool E n args =
       (sent, \<lparr>content = [\<lparr>block_type = ''text'',
                           block_text = Some (''Error: '' @ (case e of Error message \<Rightarrow> message
                                                                | Thrown v \<Rightarrow> js_String v))\<rparr>],
               isError = Some True\<rparr>)"
  by (simp add: CallTool_def Let_def)

lemma sublist_after_prefix: "sublist xs (ps @ xs)"
  by (simp add: sublist_append)

lemma joinWith_nonempty:
  assumes "xs \<noteq> []" and "hd xs \<noteq> []"
  shows "joinWith sep xs \<noteq> []"
proof (cases xs)
  case Nil
  with assms show ?thesis by simp
next
  case (Cons x ys)
  with assms show ?thesis by (cases ys) auto
qed

lemma URLSearchParams_toString_empty: "URLSearchParams_toString params = [] \<longleftrightarrow> params = []"
proof
  assume "URLSearchParams_toString params = []"
  show "params = []"
  proof (rule ccontr)
    assume ne: "params \<noteq> []"
    let ?cs = "map (\<lambda>(k, v). form_encode k @ ''='' @ form_encode v) params"
    have "?cs \<noteq> []" using ne by simp
    moreover have "hd ?cs \<noteq> []" using ne by (cases params) (auto split: prod.splits)
    ultimately have "joinWith ''&'' ?cs \<noteq> []" by (rule joinWith_nonempty)
    with \<open>URLSearchParams_toString params = []\<close> show False
      by (simp add: URLSearchParams_toString_def)
  qed
next
  assume "params = []"
  then show "URLSearchParams_toString params = []"
    by (simp add: URLSearchParams_toString_def)
qed

lemma form_encode_byte_safe: "form_safe c \<Longrightarrow> form_encode_byte c = [c]"
  by (auto simp: form_encode_byte_def form_safe_def)

lemma form_encode_safe: "\<forall>c \<in> set s. form_safe c \<Longrightarrow> form_encode s = s"
  by (induction s) (simp_all add: form_encode_def form_encode_byte_safe)

text \<open>What is written into a query string is what its receiver reads.\<close>

lemma hex_value_hex_upper: "d < 16 \<Longrightarrow> hex_value (hex_upper d) = Some d"
proof -
  assume "d < 16"
  then have "d \<in> {0..<16}" by simp
  also have "{0..<16::nat} = {0, 1, 2, 3, 4, 5, 6, 7, 8, 9, 10, 11, 12, 13, 14, 15}"
    by (simp add: atLeastLessThan_nat_numeral) blast
  finally show ?thesis
    by (auto simp: hex_upper_def hex_value_def)
qed

lemma form_safe_not_special:
  "form_safe c \<Longrightarrow> c \<noteq> CHR ''+'' \<and> c \<noteq> CHR ''%'' \<and> c \<noteq> CHR ''&'' \<and> c \<noteq> CHR ''=''"
  by (auto simp: form_safe_def)

lemma hex_upper_not_special:
  "d < 16 \<Longrightarrow> hex_upper d \<noteq> CHR ''+'' \<and> hex_upper d \<noteq> CHR ''&'' \<and> hex_upper d \<noteq> CHR ''=''"
  using hex_value_hex_upper [of d] by (auto simp: hex_value_def)

lemma of_char_div_16: "(of_char c :: nat) div 16 < 16"
proof -
  have "(of_char c :: nat) < 256" by simp
  then show ?thesis by arith
qed

lemma percent_decode_plain: "c \<noteq> CHR ''%'' \<Longrightarrow> percent_decode (c # cs) = c # percent_decode cs"
proof (cases cs)
  case Nil
  then show ?thesis by simp
next
  case (Cons h t)
  assume "c \<noteq> CHR ''%''"
  with Cons show ?thesis by (cases t) simp_all
qed

lemma decode_encoded_byte:
  "percent_decode (map (\<lambda>c. if c = CHR ''+'' then CHR '' '' else c) (form_encode_byte c) @ rest)
     = c # percent_decode rest"
proof -
  consider "c = CHR '' ''" | "c \<noteq> CHR '' ''" "form_safe c" | "c \<noteq> CHR '' ''" "\<not> form_safe c"
    by blast
  then show ?thesis
  proof cases
    case 1
    then show ?thesis by (simp add: form_encode_byte_def percent_decode_plain)
  next
    case 2
    with form_safe_not_special [of c] show ?thesis
      by (simp add: form_encode_byte_def percent_decode_plain)
  next
    case 3
    let ?n = "of_char c :: nat"
    have hi: "?n div 16 < 16" by (rule of_char_div_16)
    have lo: "?n mod 16 < 16" by simp
    have "char_of (16 * (?n div 16) + ?n mod 16) = c" by simp
    with 3 hi lo hex_value_hex_upper [OF hi] hex_value_hex_upper [OF lo]
      hex_upper_not_special [OF hi] hex_upper_not_special [OF lo]
    show ?thesis
      by (simp add: form_encode_byte_def)
  qed
qed

lemma form_decode_encode: "form_decode (form_encode s) = s"
proof -
  have "percent_decode (map (\<lambda>c. if c = CHR ''+'' then CHR '' '' else c) (form_encode s)) = s"
  proof (induction s)
    case Nil
    then show ?case by (simp add: form_encode_def)
  next
    case (Cons c s)
    have "form_encode (c # s) = form_encode_byte c @ form_encode s"
      by (simp add: form_encode_def)
    with Cons show ?case
      by (simp add: decode_encoded_byte)
  qed
  then show ?thesis by (simp add: form_decode_def)
qed

lemma form_encode_no_separator:
  "CHR ''&'' \<notin> set (form_encode s) \<and> CHR ''='' \<notin> set (form_encode s)"
proof -
  have b: "CHR ''&'' \<notin> set (form_encode_byte c) \<and> CHR ''='' \<notin> set (form_encode_byte c)" for c
    using form_safe_not_special [of c] hex_upper_not_special [OF of_char_div_16, of c]
      hex_upper_not_special [of "of_char c mod 16"]
    by (auto simp: form_encode_byte_def)
  show ?thesis
    by (induction s) (use b in \<open>auto simp: form_encode_def\<close>)
qed

lemma split_on_not_Nil: "split_on sep s \<noteq> []"
  by (cases s) (simp_all add: Let_def)

lemma split_on_no_separator: "sep \<notin> set x \<Longrightarrow> split_on sep x = [x]"
  by (induction x) (auto simp: Let_def)

lemma split_on_append:
  "sep \<notin> set x \<Longrightarrow> split_on sep (x @ sep # rest) = x # split_on sep rest"
  by (induction x) (auto simp: Let_def)

lemma split_on_joinWith:
  "xs \<noteq> [] \<Longrightarrow> \<forall>x \<in> set xs. sep \<notin> set x \<Longrightarrow> split_on sep (joinWith [sep] xs) = xs"
proof (induction "[sep]" xs rule: joinWith.induct)
  case 1
  then show ?case by simp
next
  case (2 x)
  then show ?case by (simp add: split_on_no_separator)
next
  case (3 x y ys)
  then show ?case by (simp add: split_on_append)
qed

lemma cut_at_separator:
  "sep \<notin> set xs \<Longrightarrow>
     takeWhile (\<lambda>c. c \<noteq> sep) (xs @ sep # ys) = xs
     \<and> dropWhile (\<lambda>c. c \<noteq> sep) (xs @ sep # ys) = sep # ys"
  by (induction xs) auto

lemma parse_piece:
  "takeWhile (\<lambda>c. c \<noteq> CHR ''='') (form_encode k @ ''='' @ form_encode v) = form_encode k
   \<and> drop (Suc 0) (dropWhile (\<lambda>c. c \<noteq> CHR ''='') (form_encode k @ ''='' @ form_encode v))
       = form_encode v"
  using form_encode_no_separator [of k] cut_at_separator [of "CHR ''=''" "form_encode k" "form_encode v"]
  by simp

lemma URLSearchParams_roundtrip: "URLSearchParams_parse (URLSearchParams_toString params) = params"
proof (cases "params = []")
  case True
  then show ?thesis
    by (simp add: URLSearchParams_parse_def URLSearchParams_toString_def)
next
  case False
  let ?pieces = "map (\<lambda>(k, v). form_encode k @ ''='' @ form_encode v) params"
  have ne: "?pieces \<noteq> []" using False by simp
  have sep: "\<forall>x \<in> set ?pieces. CHR ''&'' \<notin> set x"
    using form_encode_no_separator by auto
  have "split_on CHR ''&'' (joinWith ''&'' ?pieces) = ?pieces"
    using ne sep by (rule split_on_joinWith)
  moreover have "filter (\<lambda>piece. piece \<noteq> []) ?pieces = ?pieces"
    by (auto simp: filter_id_conv)
  moreover have "map (\<lambda>piece. (form_decode (takeWhile (\<lambda>c. c \<noteq> CHR ''='') piece),
                    form_decode (drop 1 (dropWhile (\<lambda>c. c \<noteq> CHR ''='') piece)))) ?pieces = params"
    by (induction params) (auto simp: parse_piece form_decode_encode simp del: append.simps)
  ultimately show ?thesis
    by (simp add: URLSearchParams_parse_def URLSearchParams_toString_def)
qed

lemma URLSearchParams_pieces:
  "params \<noteq> [] \<Longrightarrow>
     split_on CHR ''&'' (URLSearchParams_toString params) =
       map (\<lambda>(k, v). form_encode k @ ''='' @ form_encode v) params"
proof -
  assume "params \<noteq> []"
  then have "map (\<lambda>(k, v). form_encode k @ ''='' @ form_encode v) params \<noteq> []" by simp
  moreover have "\<forall>x \<in> set (map (\<lambda>(k, v). form_encode k @ ''='' @ form_encode v) params).
      CHR ''&'' \<notin> set x"
    using form_encode_no_separator by auto
  ultimately show ?thesis
    unfolding URLSearchParams_toString_def by (rule split_on_joinWith)
qed

lemma SerializeJSON_defined: "v \<noteq> JUndefined \<Longrightarrow> \<exists>s. SerializeJSON gap indent v = Some s"
  by (cases v) (simp_all add: Let_def)

lemma handle_request_state: "handle_request E st r = (st', sent, resp) \<Longrightarrow> st' = st"
  by (cases r) (auto split: prod.splits)

lemma serve_state: "fst (serve E st reqs) = st"
proof (induction reqs arbitrary: st)
  case Nil
  then show ?case by simp
next
  case (Cons r rs)
  obtain st' sent resp where h: "handle_request E st r = (st', sent, resp)"
    by (cases "handle_request E st r") auto
  then have "st' = st" by (rule handle_request_state)
  with h Cons.IH [of st] show ?case by (cases "serve E st rs") auto
qed

lemma serve_length: "length (snd (serve E st reqs)) = length reqs"
proof (induction reqs arbitrary: st)
  case Nil
  then show ?case by simp
next
  case (Cons r rs)
  obtain st' sent resp where h: "handle_request E st r = (st', sent, resp)"
    by (cases "handle_request E st r") auto
  with Cons.IH [of st'] show ?case by (cases "serve E st' rs") auto
qed

lemma serve_ListTools:
  "i < length reqs \<Longrightarrow> reqs ! i = ListToolsRequest \<Longrightarrow>
     snd (serve E st reqs) ! i = ListToolsResult (catalog st)"
proof (induction reqs arbitrary: i st)
  case Nil
  then show ?case by simp
next
  case (Cons r rs)
  obtain st' sent resp where h: "handle_request E st r = (st', sent, resp)"
    by (cases "handle_request E st r") auto
  then have st: "st' = st" by (rule handle_request_state)
  show ?case
  proof (cases i)
    case 0
    with Cons.prems h show ?thesis by (simp add: ListTools_def split: prod.splits)
  next
    case (Suc j)
    with Cons.prems have "j < length rs" "rs ! j = ListToolsRequest" by simp_all
    then have "snd (serve E st rs) ! j = ListToolsResult (catalog st)" by (rule Cons.IH)
    with h st Suc show ?thesis by (cases "serve E st rs") auto
  qed
qed


text \<open>Unfolding the definitions on concrete inputs.\<close>

lemmas eval_simps =
  CallTool_def handleToolCall_cases client_simps request_def request_options_def
  request_url_def Let_def js_get_def js_rest_def example_env_def offline_env_def example_parse_def
  ok_def URLSearchParams_toString_def form_encode_def form_encode_byte_def form_safe_def
  hex_upper_def hex_lower_def JSON_stringify_def QuoteJSONString_def JSON_escape_def
  BASE_URL_def Number_isFinite_def decimal_digit_def

section \<open>The claims\<close>

text \<open>
  C1. A tool name that is not in the catalog never reaches the client: no request is
  sent, and \<open>CallTool\<close> returns an error result whose text is
  \<^verbatim>\<open>Error: Unknown tool: <name>\<close>. Whatever \<open>handleToolCall\<close> throws, an \<^verbatim>\<open>Error\<close>
  object or any other value, \<open>CallTool\<close> returns it as an error result; nothing is
  thrown past it.
\<close>
theorem unknown_tool_is_error_result:
  "(n \<notin> set (map name (ListTools initial_state)) \<longrightarrow>
      (\<exists>text. CallTool E n args =
                ([], \<lparr>content = [\<lparr>block_type = ''text'', block_text = Some text\<rparr>],
                      isError = Some True\<rparr>)
            \<and> text = ''Error: Unknown tool: '' @ n
            \<and> sublist (''Unknown tool: '' @ n) text))
   \<and> (\<forall>sent e. handleToolCall E n args = (sent, Inl e) \<longrightarrow>
         CallTool E n args =
           (sent, \<lparr>content = [\<lparr>block_type = ''text'',
                               block_text = Some (''Error: '' @ (case e of Error message \<Rightarrow> message
                                                                    | Thrown v \<Rightarrow> js_String v))\<rparr>],
                   isError = Some True\<rparr>))"
proof (intro conjI impI allI)
  assume "n \<notin> set (map name (ListTools initial_state))"
  then have "n \<notin> set (map name tools)"
    by (simp add: ListTools_def initial_state_def)
  then have "handleToolCall E n args = ([], Inl (Error (''Unknown tool: '' @ n)))"
    by (rule handleToolCall_unknown)
  then have "CallTool E n args =
      ([], \<lparr>content = [\<lparr>block_type = ''text'',
                         block_text = Some (''Error: '' @ ''Unknown tool: '' @ n)\<rparr>],
            isError = Some True\<rparr>)"
    by (simp add: CallTool_failure)
  moreover have "sublist (''Unknown tool: '' @ n) (''Error: '' @ ''Unknown tool: '' @ n)"
    by (rule sublist_after_prefix)
  ultimately show "\<exists>text. CallTool E n args =
                ([], \<lparr>content = [\<lparr>block_type = ''text'', block_text = Some text\<rparr>],
                      isError = Some True\<rparr>)
            \<and> text = ''Error: Unknown tool: '' @ n
            \<and> sublist (''Unknown tool: '' @ n) text"
    by simp
next
  fix sent e
  assume "handleToolCall E n args = (sent, Inl e)"
  then show "CallTool E n args =
           (sent, \<lparr>content = [\<lparr>block_type = ''text'',
                               block_text = Some (''Error: '' @ (case e of Error message \<Rightarrow> message
                                                                    | Thrown v \<Rightarrow> js_String v))\<rparr>],
                   isError = Some True\<rparr>)"
    by (rule CallTool_failure)
qed

theorem unknown_tool_is_error_result_witness:
  "''not_a_real_tool'' \<notin> set (map name (ListTools initial_state))
   \<and> CallTool (example_env 200 []) ''not_a_real_tool'' [] =
       ([], \<lparr>content = [\<lparr>block_type = ''text'',
                          block_text = Some ''Error: Unknown tool: not_a_real_tool''\<rparr>],
             isError = Some True\<rparr>)
   \<and> handleToolCall offline_env ''learningsuite_check_auth'' [] =
       ([\<lparr>req_method = ''GET'', req_url = ''https://api.learningsuite.io/api/v1/auth'',
          req_headers = [(''Content-Type'', ''application/json''), (''X-API-Key'', ''secret'')],
          req_body = None\<rparr>], Inl (Thrown (JStr ''offline'')))
   \<and> snd (CallTool offline_env ''learningsuite_check_auth'' []) =
       \<lparr>content = [\<lparr>block_type = ''text'', block_text = Some ''Error: offline''\<rparr>],
        isError = Some True\<rparr>"
proof -
  have h1: "''not_a_real_tool'' \<notin> set (map name (ListTools initial_state))"
    by (simp add: ListTools_def initial_state_def tool_names)
  have h2: "handleToolCall offline_env ''learningsuite_check_auth'' [] =
       ([\<lparr>req_method = ''GET'', req_url = ''https://api.learningsuite.io/api/v1/auth'',
          req_headers = [(''Content-Type'', ''application/json''), (''X-API-Key'', ''secret'')],
          req_body = None\<rparr>], Inl (Thrown (JStr ''offline'')))"
    by (simp add: handleToolCall_cases client_simps request_def request_options_def
          request_url_def offline_env_def BASE_URL_def)
  from h1 unknown_tool_is_error_result [of "''not_a_real_tool''" "example_env 200 []" "[]"]
  have c1: "CallTool (example_env 200 []) ''not_a_real_tool'' [] =
       ([], \<lparr>content = [\<lparr>block_type = ''text'',
                          block_text = Some ''Error: Unknown tool: not_a_real_tool''\<rparr>],
             isError = Some True\<rparr>)"
    by auto
  from h2 unknown_tool_is_error_result [of "''learningsuite_check_auth''" offline_env "[]"]
  have c2: "snd (CallTool offline_env ''learningsuite_check_auth'' []) =
       \<lparr>content = [\<lparr>block_type = ''text'', block_text = Some ''Error: offline''\<rparr>],
        isError = Some True\<rparr>"
    by auto
  from h1 h2 c1 c2 show ?thesis by blast
qed

text \<open>
  C2. As the claim states it, the result of a successful call carries
  \<^verbatim>\<open>isError: false\<close>. The handler returns an object without that field.
\<close>

theorem success_has_isError_false_counterexample:
  "snd (handleToolCall (example_env 204 []) ''learningsuite_check_auth'' []) = Inr (JObj [])
   \<and> isError (snd (CallTool (example_env 204 []) ''learningsuite_check_auth'' [])) \<noteq> Some False"
  by (simp add: eval_simps)

text \<open>
  C2, amended. When the operation returns a payload, \<open>CallTool\<close> returns one text block
  holding \<^verbatim>\<open>JSON.stringify(payload, null, 2)\<close> and no \<^verbatim>\<open>isError\<close> field; a payload that
  is a JSON value always has such a text.
\<close>

theorem success_result_envelope:
  "handleToolCall E n args = (sent, Inr result) \<longrightarrow>
     CallTool E n args =
       (sent, \<lparr>content = [\<lparr>block_type = ''text'', block_text = JSON_stringify result 2\<rparr>],
               isError = None\<rparr>)
     \<and> (result \<noteq> JUndefined \<longrightarrow> (\<exists>json. JSON_stringify result 2 = Some json))"
  by (simp add: CallTool_success JSON_stringify_def SerializeJSON_defined)

theorem success_result_envelope_witness:
  \<open>handleToolCall (example_env 200 ''{"id":"abc123","email":"a@b.com"}'')
       ''learningsuite_get_member'' [(''memberId'', JStr ''abc123''), (''includeGroups'', JBool True)] =
     ([\<lparr>req_method = ''GET'',
        req_url = ''https://api.learningsuite.io/api/v1/members/abc123?includeGroups=true'',
        req_headers = [(''Content-Type'', ''application/json''), (''X-API-Key'', ''secret'')],
        req_body = None\<rparr>],
      Inr (JObj [(''id'', JStr ''abc123''), (''email'', JStr ''a@b.com'')]))
   \<and> snd (CallTool (example_env 200 ''{"id":"abc123","email":"a@b.com"}'')
       ''learningsuite_get_member'' [(''memberId'', JStr ''abc123''), (''includeGroups'', JBool True)]) =
     \<lparr>content = [\<lparr>block_type = ''text'',
                   block_text = Some (''{'' @ [CHR 0x0A] @ ''  "id": "abc123",'' @ [CHR 0x0A]
                                      @ ''  "email": "a@b.com"'' @ [CHR 0x0A] @ ''}'')\<rparr>],
      isError = None\<rparr>\<close>
proof -
  let ?E = \<open>example_env 200 ''{"id":"abc123","email":"a@b.com"}''\<close>
  let ?args = "[(''memberId'', JStr ''abc123''), (''includeGroups'', JBool True)]"
  have h: \<open>handleToolCall ?E ''learningsuite_get_member'' ?args =
     ([\<lparr>req_method = ''GET'',
        req_url = ''https://api.learningsuite.io/api/v1/members/abc123?includeGroups=true'',
        req_headers = [(''Content-Type'', ''application/json''), (''X-API-Key'', ''secret'')],
        req_body = None\<rparr>],
      Inr (JObj [(''id'', JStr ''abc123''), (''email'', JStr ''a@b.com'')]))\<close>
    by (simp add: eval_simps)
  have s: \<open>JSON_stringify (JObj [(''id'', JStr ''abc123''), (''email'', JStr ''a@b.com'')]) 2 =
      Some (''{'' @ [CHR 0x0A] @ ''  "id": "abc123",'' @ [CHR 0x0A]
                                      @ ''  "email": "a@b.com"'' @ [CHR 0x0A] @ ''}'')\<close>
    by (simp add: JSON_stringify_def QuoteJSONString_def JSON_escape_def eval_nat_numeral)
  from h s success_result_envelope [of ?E "''learningsuite_get_member''" ?args]
  show ?thesis by simp
qed

text \<open>
  C3. As the claim states it, the catalog has 65 names. It has 64.
\<close>

theorem catalog_has_65_names_counterexample:
  "length (ListTools initial_state) \<noteq> 65"
  by (simp add: ListTools_def initial_state_def tools_def)

text \<open>
  C3, amended. The catalog has 64 descriptors with pairwise different names. For each
  of them the dispatcher has a case: the call is an operation of the client, which sends
  exactly one request, and it is not the failure of the \<^verbatim>\<open>default\<close> branch.
\<close>

theorem catalog_complete:
  "length (ListTools initial_state) = 64
   \<and> distinct (map name (ListTools initial_state))
   \<and> (\<forall>t \<in> set (ListTools initial_state).
         (\<exists>method path body queryParams.
             handleToolCall E (name t) args = request E method path body queryParams)
         \<and> length (fst (CallTool E (name t) args)) = 1
         \<and> handleToolCall E (name t) args \<noteq> ([], Inl (Error (''Unknown tool: '' @ name t))))"
proof (intro conjI ballI)
  show "length (ListTools initial_state) = 64"
    by (simp add: ListTools_def initial_state_def tools_def)
  have "distinct (map name tools)"
    unfolding tool_names by simp
  then show "distinct (map name (ListTools initial_state))"
    by (simp add: ListTools_def initial_state_def)
next
  fix t
  assume "t \<in> set (ListTools initial_state)"
  then have "name t \<in> set (map name tools)"
    by (simp add: ListTools_def initial_state_def)
  then obtain m p b q
    where h: "handleToolCall E (name t) args = request E m p b q"
    using handleToolCall_known by blast
  then show "\<exists>method path body queryParams.
             handleToolCall E (name t) args = request E method path body queryParams"
    by blast
  from h show "length (fst (CallTool E (name t) args)) = 1"
    by (simp add: CallTool_sent request_sent)
  from h have "fst (handleToolCall E (name t) args) \<noteq> []"
    by (simp add: request_sent)
  then show "handleToolCall E (name t) args \<noteq> ([], Inl (Error (''Unknown tool: '' @ name t)))"
    by auto
qed

theorem catalog_complete_witness:
  "tools ! 9 \<in> set (ListTools initial_state)
   \<and> name (tools ! 9) = ''learningsuite_remove_member_from_courses''
   \<and> length (fst (CallTool offline_env ''learningsuite_remove_member_from_courses'' [])) = 1"
proof -
  have n: "name (tools ! 9) = ''learningsuite_remove_member_from_courses''"
    by (simp add: tools_def)
  have "(9::nat) < length tools"
    by (simp add: tools_def)
  then have m: "tools ! 9 \<in> set (ListTools initial_state)"
    unfolding ListTools_def initial_state_def by simp
  from catalog_complete [of offline_env "[]"] m
  have "length (fst (CallTool offline_env (name (tools ! 9)) [])) = 1"
    by blast
  with n m show ?thesis by simp
qed

text \<open>
  C4. The query string of a request is made from the entries of the query-parameter map
  whose value is not \<^verbatim>\<open>undefined\<close>, each with its value converted by \<^verbatim>\<open>String\<close>, in the
  order of the map. The receiver that reads the query string finds exactly these pairs:
  no pair for a key whose value is \<^verbatim>\<open>undefined\<close>, and for a key with a defined value
  the pair of the key and the text of the value, a number as the text JavaScript prints
  for it and a boolean as \<^verbatim>\<open>true\<close> or \<^verbatim>\<open>false\<close>. When no entry is left, nothing is
  appended to the URL, not even the question mark.
\<close>

theorem query_omits_undefined:
  "fst (request E method path body (Some entries)) =
      [request_options E method path body (Some entries)]
   \<and> req_url (request_options E method path body (Some entries)) =
        request_url path (Some entries)
   \<and> (let params = map (\<lambda>(key, value). (key, js_String value))
                       (filter (\<lambda>(key, value). value \<noteq> JUndefined) entries);
          queryString = URLSearchParams_toString params
      in request_url path (Some entries) =
           (if params = [] then BASE_URL @ path else BASE_URL @ path @ ''?'' @ queryString)
         \<and> (params \<noteq> [] \<longrightarrow>
               split_on CHR ''&'' queryString =
                 map (\<lambda>(k, v). form_encode k @ ''='' @ form_encode v) params)
         \<and> URLSearchParams_parse queryString = params
         \<and> (\<forall>key. distinct (map fst entries) \<and> (key, JUndefined) \<in> set entries
                \<longrightarrow> key \<notin> fst ` set (URLSearchParams_parse queryString))
         \<and> (\<forall>key value. (key, value) \<in> set entries \<and> value \<noteq> JUndefined
                \<longrightarrow> (key, js_String value) \<in> set (URLSearchParams_parse queryString)))
   \<and> ((\<forall>(key, value) \<in> set entries. value = JUndefined) \<longrightarrow>
         request_url path (Some entries) = BASE_URL @ path
         \<and> (CHR ''?'' \<notin> set path \<longrightarrow> CHR ''?'' \<notin> set (request_url path (Some entries))))
   \<and> request_url path (Some [(k, JNum x)]) =
        BASE_URL @ path @ ''?'' @ form_encode k @ ''='' @ form_encode (Number_toString x)
   \<and> request_url path (Some [(k, JBool b)]) =
        BASE_URL @ path @ ''?'' @ form_encode k @ ''='' @ (if b then ''true'' else ''false'')"
proof -
  let ?params = "map (\<lambda>(key, value). (key, js_String value))
                       (filter (\<lambda>(key, value). value \<noteq> JUndefined) entries)"
  let ?qs = "URLSearchParams_toString ?params"
  have url: "request_url path (Some entries) =
           (if ?params = [] then BASE_URL @ path else BASE_URL @ path @ ''?'' @ ?qs)"
    by (simp add: request_url_def Let_def URLSearchParams_toString_empty)
  have pieces: "split_on CHR ''&'' ?qs = map (\<lambda>(k, v). form_encode k @ ''='' @ form_encode v) ?params"
    if "?params \<noteq> []"
    using that by (rule URLSearchParams_pieces)
  have parse: "URLSearchParams_parse ?qs = ?params"
    by (rule URLSearchParams_roundtrip)
  have omitted: "key \<notin> fst ` set (URLSearchParams_parse ?qs)"
    if "distinct (map fst entries)" and "(key, JUndefined) \<in> set entries" for key
  proof
    assume "key \<in> fst ` set (URLSearchParams_parse ?qs)"
    then have "key \<in> fst ` set ?params"
      by (simp only: parse)
    then obtain w where v: "(key, w) \<in> set entries" "w \<noteq> JUndefined"
      by auto
    from that(1) v(1) that(2) have "w = JUndefined"
      by (meson eq_key_imp_eq_value)
    with v(2) show False by simp
  qed
  have kept: "(key, js_String w) \<in> set (URLSearchParams_parse ?qs)"
    if "(key, w) \<in> set entries" and "w \<noteq> JUndefined" for key w
  proof -
    from that have "(key, js_String w) \<in> set ?params" by force
    then show ?thesis by (simp only: parse)
  qed
  have none: "request_url path (Some entries) = BASE_URL @ path
         \<and> (CHR ''?'' \<notin> set path \<longrightarrow> CHR ''?'' \<notin> set (request_url path (Some entries)))"
    if "\<forall>(key, value) \<in> set entries. value = JUndefined"
  proof -
    from that have "filter (\<lambda>(key, value). value \<noteq> JUndefined) entries = []"
      by (auto simp: filter_empty_conv)
    then have "request_url path (Some entries) = BASE_URL @ path"
      using url by simp
    then show ?thesis by (simp add: BASE_URL_def)
  qed
  have single: "request_url path (Some [(k, w)]) =
      BASE_URL @ path @ ''?'' @ form_encode k @ ''='' @ form_encode (js_String w)"
    if "w \<noteq> JUndefined" for w
    using that by (simp add: request_url_def Let_def URLSearchParams_toString_def)
  have num: "request_url path (Some [(k, JNum x)]) =
        BASE_URL @ path @ ''?'' @ form_encode k @ ''='' @ form_encode (Number_toString x)"
    using single [of "JNum x"] by simp
  have "form_encode ''true'' = ''true''" "form_encode ''false'' = ''false''"
    by (simp_all add: form_encode_def form_encode_byte_def form_safe_def)
  then have bool: "request_url path (Some [(k, JBool b)]) =
        BASE_URL @ path @ ''?'' @ form_encode k @ ''='' @ (if b then ''true'' else ''false'')"
    using single [of "JBool b"] by simp
  show ?thesis
    unfolding Let_def
    apply (intro conjI)
            apply (rule request_sent)
           apply (simp add: request_options_def)
          apply (rule url)
         apply (intro impI, erule pieces)
        apply (rule parse)
       apply (intro allI impI, elim conjE, erule (1) omitted)
      apply (intro allI impI, elim conjE, erule (1) kept)
     apply (intro impI, erule none)
    apply (rule num)
    apply (rule bool)
    done
qed

theorem query_omits_undefined_witness:
  "request_url ''/members''
      (Some [(''includeGroups'', JUndefined), (''days_not_logged_in_gte'', JNum (Number ''1.5'')),
             (''limit'', JNum (Number ''9223372036854776000'')), (''offset'', JUndefined),
             (''include_never_logged_in'', JBool False)])
     = ''https://api.learningsuite.io/api/v1/members?days_not_logged_in_gte=1.5&limit=9223372036854776000&include_never_logged_in=false''
   \<and> URLSearchParams_parse
        ''days_not_logged_in_gte=1.5&limit=9223372036854776000&include_never_logged_in=false''
     = [(''days_not_logged_in_gte'', ''1.5''), (''limit'', ''9223372036854776000''),
        (''include_never_logged_in'', ''false'')]
   \<and> ''includeGroups'' \<notin> fst ` set (URLSearchParams_parse
        ''days_not_logged_in_gte=1.5&limit=9223372036854776000&include_never_logged_in=false'')
   \<and> request_url ''/members'' (Some [(''includeGroups'', JUndefined), (''limit'', JUndefined)])
     = ''https://api.learningsuite.io/api/v1/members''
   \<and> CHR ''?'' \<notin> set (request_url ''/members'' (Some [(''includeGroups'', JUndefined), (''limit'', JUndefined)]))"
proof -
  let ?e1 = "[(''includeGroups'', JUndefined), (''days_not_logged_in_gte'', JNum (Number ''1.5'')),
             (''limit'', JNum (Number ''9223372036854776000'')), (''offset'', JUndefined),
             (''include_never_logged_in'', JBool False)]"
  let ?e2 = "[(''includeGroups'', JUndefined), (''limit'', JUndefined)]"
  let ?q = "''days_not_logged_in_gte=1.5&limit=9223372036854776000&include_never_logged_in=false''"
  have p1: "map (\<lambda>(key, value). (key, js_String value))
               (filter (\<lambda>(key, value). value \<noteq> JUndefined) ?e1)
            = [(''days_not_logged_in_gte'', ''1.5''), (''limit'', ''9223372036854776000''),
               (''include_never_logged_in'', ''false'')]"
    by simp
  have q1: "URLSearchParams_toString [(''days_not_logged_in_gte'', ''1.5''),
               (''limit'', ''9223372036854776000''), (''include_never_logged_in'', ''false'')] = ?q"
    by (simp add: URLSearchParams_toString_def form_encode_def form_encode_byte_def form_safe_def)
  have d1: "distinct (map fst ?e1) \<and> (''includeGroups'', JUndefined) \<in> set ?e1"
    by simp
  have a2: "\<forall>(key, value) \<in> set ?e2. value = JUndefined"
    by simp
  have c2: "CHR ''?'' \<notin> set ''/members''"
    by simp
  note w1 = query_omits_undefined [of offline_env "''GET''" "''/members''" JUndefined ?e1
      "''limit''" "Number ''25''" True, unfolded Let_def p1 q1]
  note w2 = query_omits_undefined [of offline_env "''GET''" "''/members''" JUndefined ?e2
      "''limit''" "Number ''25''" True]
  from w1 have r1: "request_url ''/members'' (Some ?e1)
     = ''https://api.learningsuite.io/api/v1/members?days_not_logged_in_gte=1.5&limit=9223372036854776000&include_never_logged_in=false''"
    by (simp add: BASE_URL_def)
  from w1 have r2: "URLSearchParams_parse ?q
     = [(''days_not_logged_in_gte'', ''1.5''), (''limit'', ''9223372036854776000''),
        (''include_never_logged_in'', ''false'')]"
    by blast
  from w1 d1 have r3: "''includeGroups'' \<notin> fst ` set (URLSearchParams_parse ?q)"
    by blast
  from w2 a2 c2 have r4: "request_url ''/members'' (Some ?e2) = ''https://api.learningsuite.io/api/v1/members''"
    and r5: "CHR ''?'' \<notin> set (request_url ''/members'' (Some ?e2))"
    by (simp_all add: BASE_URL_def)
  from r1 r2 r3 r4 r5 show ?thesis by blast
qed

text \<open>
  C5. A request with method \<^verbatim>\<open>GET\<close> has no body, whatever body value and query
  parameters are passed. A body is attached only if the method is \<^verbatim>\<open>POST\<close>, \<^verbatim>\<open>PUT\<close> or
  \<^verbatim>\<open>DELETE\<close> and a body value was supplied. So no tool call, known or unknown, with any
  argument map, sends a \<^verbatim>\<open>GET\<close> request that carries a body.
\<close>

theorem get_request_has_no_body:
  "req_body (request_options E ''GET'' path body queryParams) = None
   \<and> fst (request E ''GET'' path body queryParams) =
        [request_options E ''GET'' path body queryParams]
   \<and> (req_body (request_options E method path body queryParams) \<noteq> None \<longrightarrow>
         (method = ''POST'' \<or> method = ''PUT'' \<or> method = ''DELETE'') \<and> body \<noteq> JUndefined)
   \<and> (\<forall>r \<in> set (fst (CallTool E n args)). req_method r = ''GET'' \<longrightarrow> req_body r = None)"
proof (intro conjI impI ballI)
  show "req_body (request_options E ''GET'' path body queryParams) = None"
    by (simp add: request_options_def)
  show "fst (request E ''GET'' path body queryParams) =
        [request_options E ''GET'' path body queryParams]"
    by (rule request_sent)
next
  assume a: "req_body (request_options E method path body queryParams) \<noteq> None"
  then show "method = ''POST'' \<or> method = ''PUT'' \<or> method = ''DELETE''"
    by (simp add: request_options_def split: if_splits)
  from a have "truthy body"
    by (simp add: request_options_def split: if_splits)
  then show "body \<noteq> JUndefined"
    by auto
next
  fix r
  assume r: "r \<in> set (fst (CallTool E n args))" and g: "req_method r = ''GET''"
  show "req_body r = None"
  proof (cases "n \<in> set (map name tools)")
    case True
    then obtain m p b q where "handleToolCall E n args = request E m p b q"
      using handleToolCall_known by blast
    with r have "r = request_options E m p b q"
      by (simp add: CallTool_sent request_sent)
    with g show ?thesis
      by (simp add: request_options_def)
  next
    case False
    then have "fst (handleToolCall E n args) = []"
      by (simp add: handleToolCall_unknown)
    with r show ?thesis
      by (simp add: CallTool_sent)
  qed
qed

theorem get_request_has_no_body_witness:
  "fst (CallTool (example_env 204 []) ''learningsuite_get_member_courses''
          [(''memberId'', JStr ''m1''), (''courseIds'', JArr [JStr ''c1'']), (''note'', JStr ''x'')])
     = [\<lparr>req_method = ''GET'',
         req_url = ''https://api.learningsuite.io/api/v1/members/m1/courses?memberId=m1&courseIds=c1&note=x'',
         req_headers = [(''Content-Type'', ''application/json''), (''X-API-Key'', ''secret'')],
         req_body = None\<rparr>]
   \<and> req_body (request_options offline_env ''POST'' ''/groups'' (JObj [(''name'', JStr ''g'')]) None) \<noteq> None
   \<and> req_body (hd (fst (CallTool (example_env 204 []) ''learningsuite_get_member_courses''
          [(''memberId'', JStr ''m1''), (''courseIds'', JArr [JStr ''c1'']), (''note'', JStr ''x'')])))
       = None"
proof -
  let ?args = "[(''memberId'', JStr ''m1''), (''courseIds'', JArr [JStr ''c1'']), (''note'', JStr ''x'')]"
  have s: "fst (CallTool (example_env 204 []) ''learningsuite_get_member_courses'' ?args)
     = [\<lparr>req_method = ''GET'',
         req_url = ''https://api.learningsuite.io/api/v1/members/m1/courses?memberId=m1&courseIds=c1&note=x'',
         req_headers = [(''Content-Type'', ''application/json''), (''X-API-Key'', ''secret'')],
         req_body = None\<rparr>]"
    by (simp add: eval_simps)
  have p: "req_body (request_options offline_env ''POST'' ''/groups'' (JObj [(''name'', JStr ''g'')]) None) \<noteq> None"
    by (simp add: request_options_def JSON_stringify_def Let_def)
  from get_request_has_no_body
      [of "example_env 204 []" "''/groups''" "JObj [(''name'', JStr ''g'')]" None "''POST''"
          "''learningsuite_get_member_courses''" ?args] s
  have "req_body (hd (fst (CallTool (example_env 204 []) ''learningsuite_get_member_courses'' ?args)))
      = None"
    by simp
  with s p show ?thesis by blast
qed

text \<open>
  C6. When the remote side answers with a status outside 200 to 299, the client fails
  with the message \<^verbatim>\<open>API Error <status>: <body>\<close>, the body text as it came. For every
  tool of the catalog \<open>CallTool\<close> then returns an error result whose text is
  \<^verbatim>\<open>Error: API Error <status>: <body>\<close>.
\<close>

theorem api_error_passthrough:
  "(fetch E (request_options E method path body queryParams) = Inr response \<and> \<not> ok response \<longrightarrow>
      request E method path body queryParams =
        ([request_options E method path body queryParams],
         Inl (Error (''API Error '' @ string_of_nat (status response) @ '': ''
                     @ response_text response))))
   \<and> ((\<forall>r. fetch E r = Inr response) \<and> \<not> ok response \<and> n \<in> set (map name tools) \<longrightarrow>
        (\<exists>r text. CallTool E n args =
                    ([r], \<lparr>content = [\<lparr>block_type = ''text'', block_text = Some text\<rparr>],
                           isError = Some True\<rparr>)
           \<and> text = ''Error: API Error '' @ string_of_nat (status response) @ '': ''
                    @ response_text response
           \<and> sublist (''API Error '' @ string_of_nat (status response) @ '': ''
                       @ response_text response) text))"
proof (intro conjI impI)
  assume "fetch E (request_options E method path body queryParams) = Inr response \<and> \<not> ok response"
  then show "request E method path body queryParams =
        ([request_options E method path body queryParams],
         Inl (Error (''API Error '' @ string_of_nat (status response) @ '': ''
                     @ response_text response)))"
    by (simp add: request_def Let_def)
next
  let ?msg = "''API Error '' @ string_of_nat (status response) @ '': '' @ response_text response"
  assume a: "(\<forall>r. fetch E r = Inr response) \<and> \<not> ok response \<and> n \<in> set (map name tools)"
  then obtain m p b q where h: "handleToolCall E n args = request E m p b q"
    using handleToolCall_known by blast
  from a have "request E m p b q = ([request_options E m p b q], Inl (Error ?msg))"
    by (simp add: request_def Let_def)
  with h have c: "CallTool E n args =
      ([request_options E m p b q],
       \<lparr>content = [\<lparr>block_type = ''text'', block_text = Some (''Error: '' @ ?msg)\<rparr>],
        isError = Some True\<rparr>)"
    by (simp add: CallTool_failure)
  have s: "sublist ?msg (''Error: '' @ ?msg)"
    by (rule sublist_after_prefix)
  show "\<exists>r text. CallTool E n args =
                    ([r], \<lparr>content = [\<lparr>block_type = ''text'', block_text = Some text\<rparr>],
                           isError = Some True\<rparr>)
           \<and> text = ''Error: API Error '' @ string_of_nat (status response) @ '': ''
                    @ response_text response
           \<and> sublist (''API Error '' @ string_of_nat (status response) @ '': ''
                       @ response_text response) text"
    apply (rule exI [of _ "request_options E m p b q"])
    apply (rule exI [of _ "''Error: '' @ ?msg"])
    apply (intro conjI)
      apply (rule c)
     apply simp
    apply (rule s)
    done
qed

theorem api_error_passthrough_witness:
  "(\<forall>r. fetch (example_env 404 ''not found'') r = Inr \<lparr>status = 404, response_text = ''not found''\<rparr>)
   \<and> \<not> ok \<lparr>status = 404, response_text = ''not found''\<rparr>
   \<and> ''learningsuite_get_member'' \<in> set (map name tools)
   \<and> snd (CallTool (example_env 404 ''not found'') ''learningsuite_get_member''
             [(''memberId'', JStr ''abc123'')])
      = \<lparr>content = [\<lparr>block_type = ''text'',
                      block_text = Some ''Error: API Error 404: not found''\<rparr>],
         isError = Some True\<rparr>
   \<and> sublist ''API Error 404: not found'' ''Error: API Error 404: not found''"
proof -
  let ?E = "example_env 404 ''not found''"
  let ?resp = "\<lparr>status = 404, response_text = ''not found''\<rparr>"
  have f: "\<forall>r. fetch ?E r = Inr ?resp"
    by (simp add: example_env_def)
  have o: "\<not> ok ?resp"
    by (simp add: ok_def)
  have k: "''learningsuite_get_member'' \<in> set (map name tools)"
    by (simp add: tool_names)
  have d: "string_of_nat 404 = ''404''"
    by (simp add: decimal_digit_def)
  from api_error_passthrough [of ?E "''GET''" "[]" JUndefined None ?resp
      "''learningsuite_get_member''" "[(''memberId'', JStr ''abc123'')]"] f o k
  have "\<exists>r text. CallTool ?E ''learningsuite_get_member'' [(''memberId'', JStr ''abc123'')] =
                    ([r], \<lparr>content = [\<lparr>block_type = ''text'', block_text = Some text\<rparr>],
                           isError = Some True\<rparr>)
           \<and> text = ''Error: API Error '' @ string_of_nat (status ?resp) @ '': ''
                    @ response_text ?resp
           \<and> sublist (''API Error '' @ string_of_nat (status ?resp) @ '': ''
                       @ response_text ?resp) text"
    by blast
  with d have "snd (CallTool ?E ''learningsuite_get_member'' [(''memberId'', JStr ''abc123'')])
      = \<lparr>content = [\<lparr>block_type = ''text'',
                      block_text = Some ''Error: API Error 404: not found''\<rparr>],
         isError = Some True\<rparr>
     \<and> sublist ''API Error 404: not found'' ''Error: API Error 404: not found''"
    by auto
  with f o k show ?thesis by blast
qed

text \<open>
  C7. A response with a status from 200 to 299 and an empty body makes the client return
  the empty object without calling the parser, and \<open>CallTool\<close> return a result that is
  not an error, with the text \<^verbatim>\<open>{}\<close>. With a body that is not empty the client returns
  what \<^verbatim>\<open>JSON.parse\<close> returns; when the parser throws, the call fails with what it threw
  and \<open>CallTool\<close> returns an error result.
\<close>

theorem empty_body_is_empty_object:
  "(fetch E (request_options E method path body queryParams) = Inr response \<and> ok response
      \<and> response_text response = [] \<longrightarrow>
      snd (request E method path body queryParams) = Inr (JObj []))
   \<and> (fetch E (request_options E method path body queryParams) = Inr response \<and> ok response
      \<and> response_text response \<noteq> [] \<longrightarrow>
      snd (request E method path body queryParams) = JSON_parse E (response_text response))
   \<and> ((\<forall>r. fetch E r = Inr response) \<and> ok response \<and> response_text response = []
      \<and> n \<in> set (map name tools) \<longrightarrow>
      snd (CallTool E n args) =
        \<lparr>content = [\<lparr>block_type = ''text'', block_text = Some ''{}''\<rparr>], isError = None\<rparr>)
   \<and> ((\<forall>r. fetch E r = Inr response) \<and> ok response \<and> response_text response \<noteq> []
      \<and> JSON_parse E (response_text response) = Inl e \<and> n \<in> set (map name tools) \<longrightarrow>
      snd (handleToolCall E n args) = Inl e
      \<and> snd (CallTool E n args) =
        \<lparr>content = [\<lparr>block_type = ''text'',
                      block_text = Some (''Error: '' @ (case e of Error message \<Rightarrow> message
                                                           | Thrown v \<Rightarrow> js_String v))\<rparr>],
         isError = Some True\<rparr>)"
proof (intro conjI impI)
  assume "fetch E (request_options E method path body queryParams) = Inr response \<and> ok response
      \<and> response_text response = []"
  then show "snd (request E method path body queryParams) = Inr (JObj [])"
    by (simp add: request_empty)
next
  assume "fetch E (request_options E method path body queryParams) = Inr response \<and> ok response
      \<and> response_text response \<noteq> []"
  then show "snd (request E method path body queryParams) = JSON_parse E (response_text response)"
    by (simp add: request_parsed)
next
  assume a: "(\<forall>r. fetch E r = Inr response) \<and> ok response \<and> response_text response = []
      \<and> n \<in> set (map name tools)"
  then obtain m p b q where h: "handleToolCall E n args = request E m p b q"
    using handleToolCall_known by blast
  from a have "request E m p b q = ([request_options E m p b q], Inr (JObj []))"
    by (simp add: request_def Let_def)
  with h have "CallTool E n args =
      ([request_options E m p b q],
       \<lparr>content = [\<lparr>block_type = ''text'', block_text = JSON_stringify (JObj []) 2\<rparr>],
        isError = None\<rparr>)"
    by (simp add: CallTool_success)
  then show "snd (CallTool E n args) =
        \<lparr>content = [\<lparr>block_type = ''text'', block_text = Some ''{}''\<rparr>], isError = None\<rparr>"
    by (simp add: JSON_stringify_def)
next
  assume a: "(\<forall>r. fetch E r = Inr response) \<and> ok response \<and> response_text response \<noteq> []
      \<and> JSON_parse E (response_text response) = Inl e \<and> n \<in> set (map name tools)"
  then obtain m p b q where h: "handleToolCall E n args = request E m p b q"
    using handleToolCall_known by blast
  from a have r: "request E m p b q = ([request_options E m p b q], Inl e)"
    by (simp add: request_def Let_def)
  with h show "snd (handleToolCall E n args) = Inl e"
    by simp
  from h r have "CallTool E n args =
      ([request_options E m p b q],
       \<lparr>content = [\<lparr>block_type = ''text'',
                     block_text = Some (''Error: '' @ (case e of Error message \<Rightarrow> message
                                                          | Thrown v \<Rightarrow> js_String v))\<rparr>],
        isError = Some True\<rparr>)"
    by (simp add: CallTool_failure)
  then show "snd (CallTool E n args) =
        \<lparr>content = [\<lparr>block_type = ''text'',
                      block_text = Some (''Error: '' @ (case e of Error message \<Rightarrow> message
                                                           | Thrown v \<Rightarrow> js_String v))\<rparr>],
         isError = Some True\<rparr>"
    by simp
qed

theorem empty_body_is_empty_object_witness:
  "JSON_parse (example_env 204 []) [] = Inl (Error ''Unexpected token in JSON'')
   \<and> snd (CallTool (example_env 204 []) ''learningsuite_delete_member'' [(''memberId'', JStr ''m1'')])
      = \<lparr>content = [\<lparr>block_type = ''text'', block_text = Some ''{}''\<rparr>], isError = None\<rparr>
   \<and> snd (CallTool (example_env 200 ''<html>'') ''learningsuite_list_hubs'' [])
      = \<lparr>content = [\<lparr>block_type = ''text'',
                      block_text = Some ''Error: Unexpected token in JSON''\<rparr>],
         isError = Some True\<rparr>"
proof -
  let ?E = "example_env 204 []"
  let ?resp = "\<lparr>status = 204, response_text = []\<rparr>"
  let ?G = "example_env 200 ''<html>''"
  let ?bad = "\<lparr>status = 200, response_text = ''<html>''\<rparr>"
  have p: "JSON_parse ?E [] = Inl (Error ''Unexpected token in JSON'')"
    by (simp add: example_env_def example_parse_def)
  have f: "(\<forall>r. fetch ?E r = Inr ?resp) \<and> ok ?resp \<and> response_text ?resp = []"
    by (simp add: example_env_def ok_def)
  have k: "''learningsuite_delete_member'' \<in> set (map name tools)"
    by (simp add: tool_names)
  have g: "(\<forall>r. fetch ?G r = Inr ?bad) \<and> ok ?bad \<and> response_text ?bad \<noteq> []
      \<and> JSON_parse ?G (response_text ?bad) = Inl (Error ''Unexpected token in JSON'')"
    by (simp add: example_env_def ok_def example_parse_def)
  have l: "''learningsuite_list_hubs'' \<in> set (map name tools)"
    by (simp add: tool_names)
  from empty_body_is_empty_object [of ?E "''GET''" "[]" JUndefined None ?resp
      "''learningsuite_delete_member''" "[(''memberId'', JStr ''m1'')]" "Error []"] f k
  have c1: "snd (CallTool ?E ''learningsuite_delete_member'' [(''memberId'', JStr ''m1'')])
      = \<lparr>content = [\<lparr>block_type = ''text'', block_text = Some ''{}''\<rparr>], isError = None\<rparr>"
    by blast
  from empty_body_is_empty_object [of ?G "''GET''" "[]" JUndefined None ?bad
      "''learningsuite_list_hubs''" "[]" "Error ''Unexpected token in JSON''"] g l
  have "snd (CallTool ?G ''learningsuite_list_hubs'' [])
      = \<lparr>content = [\<lparr>block_type = ''text'',
                      block_text = Some (''Error: '' @ (case Error ''Unexpected token in JSON'' of
                          Error message \<Rightarrow> message | Thrown v \<Rightarrow> js_String v))\<rparr>],
         isError = Some True\<rparr>"
    by blast
  then have c2: "snd (CallTool ?G ''learningsuite_list_hubs'' [])
      = \<lparr>content = [\<lparr>block_type = ''text'',
                      block_text = Some ''Error: Unexpected token in JSON''\<rparr>],
         isError = Some True\<rparr>"
    by simp
  from p c1 c2 show ?thesis by blast
qed

text \<open>
  C8. \<open>ListTools\<close> returns the catalog as it is: the whole array \<open>tools\<close>, in its order.
  It sends no request and has no failing branch. Serving any sequence of requests leaves
  the catalog unchanged, so every \<open>ListTools\<close> request in the sequence gets the same
  answer, whatever tool calls come before it.
\<close>

theorem list_tools_returns_catalog:
  "ListTools initial_state = tools
   \<and> handle_request E st ListToolsRequest = (st, [], ListToolsResult (catalog st))
   \<and> fst (serve E initial_state reqs) = initial_state
   \<and> length (snd (serve E initial_state reqs)) = length reqs
   \<and> (\<forall>i < length reqs. reqs ! i = ListToolsRequest \<longrightarrow>
         snd (serve E initial_state reqs) ! i = ListToolsResult tools)"
proof (intro conjI allI impI)
  show "ListTools initial_state = tools"
    by (simp add: ListTools_def initial_state_def)
  show "handle_request E st ListToolsRequest = (st, [], ListToolsResult (catalog st))"
    by (simp add: ListTools_def)
  show "fst (serve E initial_state reqs) = initial_state"
    by (rule serve_state)
  show "length (snd (serve E initial_state reqs)) = length reqs"
    by (rule serve_length)
next
  fix i
  assume "i < length reqs" and "reqs ! i = ListToolsRequest"
  then have "snd (serve E initial_state reqs) ! i = ListToolsResult (catalog initial_state)"
    by (rule serve_ListTools)
  then show "snd (serve E initial_state reqs) ! i = ListToolsResult tools"
    by (simp add: initial_state_def)
qed

theorem list_tools_returns_catalog_witness:
  "snd (serve offline_env initial_state
          [ListToolsRequest, CallToolRequest ''learningsuite_delete_member'' [(''memberId'', JStr ''m1'')],
           CallToolRequest ''not_a_real_tool'' [], ListToolsRequest]) ! 0 = ListToolsResult tools
   \<and> snd (serve offline_env initial_state
          [ListToolsRequest, CallToolRequest ''learningsuite_delete_member'' [(''memberId'', JStr ''m1'')],
           CallToolRequest ''not_a_real_tool'' [], ListToolsRequest]) ! 3 = ListToolsResult tools"
proof -
  let ?reqs = "[ListToolsRequest, CallToolRequest ''learningsuite_delete_member'' [(''memberId'', JStr ''m1'')],
           CallToolRequest ''not_a_real_tool'' [], ListToolsRequest]"
  have a: "(0::nat) < length ?reqs \<and> ?reqs ! 0 = ListToolsRequest"
    by simp
  have b: "(3::nat) < length ?reqs \<and> ?reqs ! 3 = ListToolsRequest"
    by simp
  note w = list_tools_returns_catalog [of offline_env initial_state ?reqs]
  from w a have "snd (serve offline_env initial_state ?reqs) ! 0 = ListToolsResult tools"
    by blast
  moreover from w b have "snd (serve offline_env initial_state ?reqs) ! 3 = ListToolsResult tools"
    by blast
  ultimately show ?thesis by blast
qed

text \<open>
  C9. A call of \<^verbatim>\<open>learningsuite_remove_member_from_courses\<close> with member id \<open>m\<close> and course
  ids \<open>cs\<close> sends exactly one request: \<^verbatim>\<open>DELETE\<close> to \<^verbatim>\<open>/members/<m>/courses\<close>, nothing
  appended to the path, with the body \<^verbatim>\<open>{"courseIds":<cs>}\<close>. The body has this one
  property, whatever else the argument map holds.
\<close>

theorem remove_member_from_courses_request:
  \<open>js_get args ''memberId'' = JStr m \<and> js_get args ''courseIds'' = cs \<and> cs \<noteq> JUndefined \<longrightarrow>
     (\<exists>json. SerializeJSON [] [] cs = Some json
        \<and> JSON_stringify (JObj [(''courseIds'', cs)]) 0 = Some (''{"courseIds":'' @ json @ ''}'')
        \<and> fst (CallTool E ''learningsuite_remove_member_from_courses'' args) =
            [\<lparr>req_method = ''DELETE'',
              req_url = BASE_URL @ ''/members/'' @ m @ ''/courses'',
              req_headers = [(''Content-Type'', ''application/json''), (''X-API-Key'', apiKey E)],
              req_body = Some (''{"courseIds":'' @ json @ ''}'')\<rparr>])\<close>
proof (intro impI, elim conjE)
  assume m: "js_get args ''memberId'' = JStr m" and c: "js_get args ''courseIds'' = cs"
    and d: "cs \<noteq> JUndefined"
  from d obtain json where j: "SerializeJSON [] [] cs = Some json"
    using SerializeJSON_defined by blast
  then have s: \<open>JSON_stringify (JObj [(''courseIds'', cs)]) 0 = Some (''{"courseIds":'' @ json @ ''}'')\<close>
    by (simp add: JSON_stringify_def QuoteJSONString_def JSON_escape_def)
  have "fst (CallTool E ''learningsuite_remove_member_from_courses'' args) =
      [request_options E ''DELETE'' (''/members/'' @ m @ ''/courses'') (JObj [(''courseIds'', cs)]) None]"
    using m c
    by (simp add: CallTool_sent handleToolCall_cases removeMemberFromCourses_def request_sent)
  with s have \<open>fst (CallTool E ''learningsuite_remove_member_from_courses'' args) =
            [\<lparr>req_method = ''DELETE'',
              req_url = BASE_URL @ ''/members/'' @ m @ ''/courses'',
              req_headers = [(''Content-Type'', ''application/json''), (''X-API-Key'', apiKey E)],
              req_body = Some (''{"courseIds":'' @ json @ ''}'')\<rparr>]\<close>
    by (simp add: request_options_def request_url_def)
  with j s show \<open>\<exists>json. SerializeJSON [] [] cs = Some json
        \<and> JSON_stringify (JObj [(''courseIds'', cs)]) 0 = Some (''{"courseIds":'' @ json @ ''}'')
        \<and> fst (CallTool E ''learningsuite_remove_member_from_courses'' args) =
            [\<lparr>req_method = ''DELETE'',
              req_url = BASE_URL @ ''/members/'' @ m @ ''/courses'',
              req_headers = [(''Content-Type'', ''application/json''), (''X-API-Key'', apiKey E)],
              req_body = Some (''{"courseIds":'' @ json @ ''}'')\<rparr>]\<close>
    by blast
qed

theorem remove_member_from_courses_request_witness:
  \<open>js_get [(''memberId'', JStr ''m1''), (''courseIds'', JArr [JStr ''c1'', JStr ''c2''])] ''memberId''
      = JStr ''m1''
   \<and> SerializeJSON [] [] (JArr [JStr ''c1'', JStr ''c2'']) = Some ''["c1","c2"]''
   \<and> fst (CallTool (example_env 200 [])  ''learningsuite_remove_member_from_courses''
            [(''memberId'', JStr ''m1''), (''courseIds'', JArr [JStr ''c1'', JStr ''c2''])]) =
        [\<lparr>req_method = ''DELETE'',
          req_url = ''https://api.learningsuite.io/api/v1/members/m1/courses'',
          req_headers = [(''Content-Type'', ''application/json''), (''X-API-Key'', ''secret'')],
          req_body = Some ''{"courseIds":["c1","c2"]}''\<rparr>]\<close>
proof -
  let ?args = "[(''memberId'', JStr ''m1''), (''courseIds'', JArr [JStr ''c1'', JStr ''c2''])]"
  let ?cs = "JArr [JStr ''c1'', JStr ''c2'']"
  have a: "js_get ?args ''memberId'' = JStr ''m1'' \<and> js_get ?args ''courseIds'' = ?cs
      \<and> ?cs \<noteq> JUndefined"
    by (simp add: js_get_def)
  have j: \<open>SerializeJSON [] [] ?cs = Some ''["c1","c2"]''\<close>
    by (simp add: QuoteJSONString_def JSON_escape_def)
  from remove_member_from_courses_request [of ?args "''m1''" ?cs "example_env 200 []"] a j
  have \<open>fst (CallTool (example_env 200 []) ''learningsuite_remove_member_from_courses'' ?args) =
        [\<lparr>req_method = ''DELETE'',
          req_url = BASE_URL @ ''/members/'' @ ''m1'' @ ''/courses'',
          req_headers = [(''Content-Type'', ''application/json''),
                         (''X-API-Key'', apiKey (example_env 200 []))],
          req_body = Some (''{"courseIds":'' @ ''["c1","c2"]'' @ ''}'')\<rparr>]\<close>
    by auto
  then have \<open>fst (CallTool (example_env 200 []) ''learningsuite_remove_member_from_courses'' ?args) =
        [\<lparr>req_method = ''DELETE'',
          req_url = ''https://api.learningsuite.io/api/v1/members/m1/courses'',
          req_headers = [(''Content-Type'', ''application/json''), (''X-API-Key'', ''secret'')],
          req_body = Some ''{"courseIds":["c1","c2"]}''\<rparr>]\<close>
    by (simp add: BASE_URL_def example_env_def)
  with a j show ?thesis by blast
qed

text \<open>
  C10. \<^verbatim>\<open>learningsuite_get_member_courses\<close> passes the whole argument map as query
  parameters, so the member id of the path is sent again as the query parameter
  \<^verbatim>\<open>memberId\<close>: with the arguments \<open>memberId = m\<close> and \<open>limit = k\<close> the request is
  \<^verbatim>\<open>GET /members/<m>/courses?memberId=<m>&limit=<k>\<close>, \<open>k\<close> as JavaScript prints the
  number and both values form-encoded (an id of letters and digits is unchanged); the
  receiver reads the pairs \<open>memberId = m\<close> and \<open>limit = k\<close> from the query string.
  \<^verbatim>\<open>learningsuite_add_member_to_courses\<close> sends the whole
  argument map, \<^verbatim>\<open>memberId\<close> included, as the body of its \<^verbatim>\<open>PUT\<close>.
\<close>

theorem whole_argument_map_passed_through:
  "fst (CallTool E ''learningsuite_get_member_courses'' args) =
      [request_options E ''GET'' (''/members/'' @ js_String (js_get args ''memberId'') @ ''/courses'')
         JUndefined (Some args)]
   \<and> fst (CallTool E ''learningsuite_get_member_courses''
            [(''memberId'', JStr m), (''limit'', JNum k)]) =
      [\<lparr>req_method = ''GET'',
        req_url = BASE_URL @ ''/members/'' @ m @ ''/courses?memberId='' @ form_encode m
                    @ ''&limit='' @ form_encode (Number_toString k),
        req_headers = [(''Content-Type'', ''application/json''), (''X-API-Key'', apiKey E)],
        req_body = None\<rparr>]
   \<and> URLSearchParams_parse
        (''memberId='' @ form_encode m @ ''&limit='' @ form_encode (Number_toString k)) =
      [(''memberId'', m), (''limit'', Number_toString k)]
   \<and> ((\<forall>c \<in> set m. form_safe c) \<longrightarrow> form_encode m = m)
   \<and> fst (CallTool E ''learningsuite_add_member_to_courses'' args) =
      [\<lparr>req_method = ''PUT'',
        req_url = BASE_URL @ ''/members/'' @ js_String (js_get args ''memberId'') @ ''/courses'',
        req_headers = [(''Content-Type'', ''application/json''), (''X-API-Key'', apiKey E)],
        req_body = JSON_stringify (JObj args) 0\<rparr>]"
proof (intro conjI impI)
  show "fst (CallTool E ''learningsuite_get_member_courses'' args) =
      [request_options E ''GET'' (''/members/'' @ js_String (js_get args ''memberId'') @ ''/courses'')
         JUndefined (Some args)]"
    by (simp add: CallTool_sent handleToolCall_cases getMemberCourses_def request_sent)
  have q: "URLSearchParams_toString [(''memberId'', m), (''limit'', Number_toString k)] =
      ''memberId='' @ form_encode m @ ''&limit='' @ form_encode (Number_toString k)"
    by (simp add: URLSearchParams_toString_def form_encode_def form_encode_byte_def form_safe_def)
  from URLSearchParams_roundtrip [of "[(''memberId'', m), (''limit'', Number_toString k)]"]
  show "URLSearchParams_parse
        (''memberId='' @ form_encode m @ ''&limit='' @ form_encode (Number_toString k)) =
      [(''memberId'', m), (''limit'', Number_toString k)]"
    by (simp only: q)
  from q have "request_url (''/members/'' @ m @ ''/courses'') (Some [(''memberId'', JStr m), (''limit'', JNum k)])
      = BASE_URL @ ''/members/'' @ m @ ''/courses?memberId='' @ form_encode m
                    @ ''&limit='' @ form_encode (Number_toString k)"
    by (simp add: request_url_def Let_def)
  then show "fst (CallTool E ''learningsuite_get_member_courses''
            [(''memberId'', JStr m), (''limit'', JNum k)]) =
      [\<lparr>req_method = ''GET'',
        req_url = BASE_URL @ ''/members/'' @ m @ ''/courses?memberId='' @ form_encode m
                    @ ''&limit='' @ form_encode (Number_toString k),
        req_headers = [(''Content-Type'', ''application/json''), (''X-API-Key'', apiKey E)],
        req_body = None\<rparr>]"
    by (simp add: CallTool_sent handleToolCall_cases getMemberCourses_def request_sent
          request_options_def js_get_def)
  show "fst (CallTool E ''learningsuite_add_member_to_courses'' args) =
      [\<lparr>req_method = ''PUT'',
        req_url = BASE_URL @ ''/members/'' @ js_String (js_get args ''memberId'') @ ''/courses'',
        req_headers = [(''Content-Type'', ''application/json''), (''X-API-Key'', apiKey E)],
        req_body = JSON_stringify (JObj args) 0\<rparr>]"
    by (simp add: CallTool_sent handleToolCall_cases addMemberToCourses_def request_sent
          request_options_def request_url_def)
next
  assume "\<forall>c \<in> set m. form_safe c"
  then show "form_encode m = m"
    by (rule form_encode_safe)
qed

theorem whole_argument_map_passed_through_witness:
  \<open>form_safe CHR ''m'' \<and> form_safe CHR ''1''
   \<and> fst (CallTool offline_env ''learningsuite_get_member_courses''
            [(''memberId'', JStr ''m1''), (''limit'', JNum (Number ''10''))]) =
      [\<lparr>req_method = ''GET'',
        req_url = ''https://api.learningsuite.io/api/v1/members/m1/courses?memberId=m1&limit=10'',
        req_headers = [(''Content-Type'', ''application/json''), (''X-API-Key'', ''secret'')],
        req_body = None\<rparr>]
   \<and> fst (CallTool offline_env ''learningsuite_get_member_courses''
            [(''memberId'', JStr ''m1''), (''limit'', JNum (Number ''1e+21''))]) =
      [\<lparr>req_method = ''GET'',
        req_url = ''https://api.learningsuite.io/api/v1/members/m1/courses?memberId=m1&limit=1e%2B21'',
        req_headers = [(''Content-Type'', ''application/json''), (''X-API-Key'', ''secret'')],
        req_body = None\<rparr>]
   \<and> URLSearchParams_parse ''memberId=m1&limit=1e%2B21'' = [(''memberId'', ''m1''), (''limit'', ''1e+21'')]
   \<and> fst (CallTool offline_env ''learningsuite_add_member_to_courses''
            [(''memberId'', JStr ''m1''), (''courseIds'', JArr [JStr ''c1''])]) =
      [\<lparr>req_method = ''PUT'',
        req_url = ''https://api.learningsuite.io/api/v1/members/m1/courses'',
        req_headers = [(''Content-Type'', ''application/json''), (''X-API-Key'', ''secret'')],
        req_body = Some ''{"memberId":"m1","courseIds":["c1"]}''\<rparr>]\<close>
proof -
  have s: "\<forall>c \<in> set ''m1''. form_safe c"
    by (simp add: form_safe_def)
  have n: "form_encode (Number_toString (Number ''10'')) = ''10''"
    and n': "form_encode (Number_toString (Number ''1e+21'')) = ''1e%2B21''"
    by (simp_all add: form_encode_def form_encode_byte_def form_safe_def hex_upper_def)
  have b: \<open>JSON_stringify (JObj [(''memberId'', JStr ''m1''), (''courseIds'', JArr [JStr ''c1''])]) 0
      = Some ''{"memberId":"m1","courseIds":["c1"]}''\<close>
    by (simp add: JSON_stringify_def QuoteJSONString_def JSON_escape_def)
  note w1 = whole_argument_map_passed_through [of offline_env "[]" "''m1''" "Number ''10''"]
  note w2 = whole_argument_map_passed_through
      [of offline_env "[(''memberId'', JStr ''m1''), (''courseIds'', JArr [JStr ''c1''])]" "''m1''" "Number ''10''"]
  from w1 s have e: "form_encode ''m1'' = ''m1''"
    by blast
  from w1 have "fst (CallTool offline_env ''learningsuite_get_member_courses''
            [(''memberId'', JStr ''m1''), (''limit'', JNum (Number ''10''))]) =
      [\<lparr>req_method = ''GET'',
        req_url = BASE_URL @ ''/members/'' @ ''m1'' @ ''/courses?memberId='' @ form_encode ''m1''
                    @ ''&limit='' @ form_encode (Number_toString (Number ''10'')),
        req_headers = [(''Content-Type'', ''application/json''), (''X-API-Key'', apiKey offline_env)],
        req_body = None\<rparr>]"
    by blast
  then have g: "fst (CallTool offline_env ''learningsuite_get_member_courses''
            [(''memberId'', JStr ''m1''), (''limit'', JNum (Number ''10''))]) =
      [\<lparr>req_method = ''GET'',
        req_url = ''https://api.learningsuite.io/api/v1/members/m1/courses?memberId=m1&limit=10'',
        req_headers = [(''Content-Type'', ''application/json''), (''X-API-Key'', ''secret'')],
        req_body = None\<rparr>]"
    unfolding e n by (simp add: BASE_URL_def offline_env_def)
  note w3 = whole_argument_map_passed_through [of offline_env "[]" "''m1''" "Number ''1e+21''"]
  from w3 have "fst (CallTool offline_env ''learningsuite_get_member_courses''
            [(''memberId'', JStr ''m1''), (''limit'', JNum (Number ''1e+21''))]) =
      [\<lparr>req_method = ''GET'',
        req_url = BASE_URL @ ''/members/'' @ ''m1'' @ ''/courses?memberId='' @ form_encode ''m1''
                    @ ''&limit='' @ form_encode (Number_toString (Number ''1e+21'')),
        req_headers = [(''Content-Type'', ''application/json''), (''X-API-Key'', apiKey offline_env)],
        req_body = None\<rparr>]"
    by blast
  then have g': "fst (CallTool offline_env ''learningsuite_get_member_courses''
            [(''memberId'', JStr ''m1''), (''limit'', JNum (Number ''1e+21''))]) =
      [\<lparr>req_method = ''GET'',
        req_url = ''https://api.learningsuite.io/api/v1/members/m1/courses?memberId=m1&limit=1e%2B21'',
        req_headers = [(''Content-Type'', ''application/json''), (''X-API-Key'', ''secret'')],
        req_body = None\<rparr>]"
    unfolding e n' by (simp add: BASE_URL_def offline_env_def)
  from w3 have "URLSearchParams_parse
        (''memberId='' @ form_encode ''m1'' @ ''&limit='' @ form_encode (Number_toString (Number ''1e+21''))) =
      [(''memberId'', ''m1''), (''limit'', Number_toString (Number ''1e+21''))]"
    by blast
  then have r: "URLSearchParams_parse ''memberId=m1&limit=1e%2B21'' = [(''memberId'', ''m1''), (''limit'', ''1e+21'')]"
    unfolding e n' by simp
  from w2 have "fst (CallTool offline_env ''learningsuite_add_member_to_courses''
            [(''memberId'', JStr ''m1''), (''courseIds'', JArr [JStr ''c1''])]) =
      [\<lparr>req_method = ''PUT'',
        req_url = BASE_URL @ ''/members/''
            @ js_String (js_get [(''memberId'', JStr ''m1''), (''courseIds'', JArr [JStr ''c1''])] ''memberId'')
            @ ''/courses'',
        req_headers = [(''Content-Type'', ''application/json''), (''X-API-Key'', apiKey offline_env)],
        req_body = JSON_stringify (JObj [(''memberId'', JStr ''m1''), (''courseIds'', JArr [JStr ''c1''])]) 0\<rparr>]"
    by blast
  then have p: \<open>fst (CallTool offline_env ''learningsuite_add_member_to_courses''
            [(''memberId'', JStr ''m1''), (''courseIds'', JArr [JStr ''c1''])]) =
      [\<lparr>req_method = ''PUT'',
        req_url = ''https://api.learningsuite.io/api/v1/members/m1/courses'',
        req_headers = [(''Content-Type'', ''application/json''), (''X-API-Key'', ''secret'')],
        req_body = Some ''{"memberId":"m1","courseIds":["c1"]}''\<rparr>]\<close>
    unfolding b by (simp add: BASE_URL_def offline_env_def js_get_def)
  from s have "form_safe CHR ''m'' \<and> form_safe CHR ''1''"
    by simp
  with g g' r p show ?thesis by blast
qed


end
